theory Spec2Isabelle
  imports Complex_Main "HOL-Library.AList"
begin

text \<open>
  A model of the collaborative coding server: the store adapter (redis.js), the session
  manager (ContainerSessionManager.js) and the WebSocket dispatcher with its edit
  engine, as functions on an explicit state of the server. The store, the file system
  and the sandbox are collaborators whose answers and failures are parameters. The
  properties proved of the model follow its definitions.
\<close>

section \<open>JavaScript values and \<^verbatim>\<open>JSON.parse\<close>\<close>

text \<open>
  The store adapter passes every value it reads through \<^verbatim>\<open>JSON.parse\<close>, so the
  values that reach the session manager and the dispatcher are JavaScript values, not
  only strings. A string of the model stands for the UTF-8 bytes of a JavaScript string
  (the store holds bytes); a number is kept as the exact decimal value of its literal;
  an object is its properties in the order of their creation.
\<close>

datatype jsval =
    JUndefined
  | JNull
  | JBool bool
  | JNum rat
  | JStr string
  | JArr "jsval list"
  | JObj "(string \<times> jsval) list"

subsection \<open>Numbers and strings of the JSON grammar\<close>

text \<open>
  White space is the space, the tab, the line feed and the carriage return; digits are
  read as decimal and as hexadecimal numbers.
\<close>

definition is_ws :: "char \<Rightarrow> bool" where
  "is_ws c = (c = CHR 0x20 \<or> c = CHR 0x09 \<or> c = CHR 0x0A \<or> c = CHR 0x0D)"

definition is_digit :: "char \<Rightarrow> bool" where
  "is_digit c = (48 \<le> (of_char c :: nat) \<and> (of_char c :: nat) \<le> 57)"

definition digit_val :: "char \<Rightarrow> nat" where
  "digit_val c = of_char c - 48"

definition digits_val :: "string \<Rightarrow> nat" where
  "digits_val ds = foldl (\<lambda>a c. 10 * a + digit_val c) 0 ds"

definition hex_val :: "char \<Rightarrow> nat option" where
  "hex_val c =
     (let n = (of_char c :: nat)
      in if 48 \<le> n \<and> n \<le> 57 then Some (n - 48)
         else if 65 \<le> n \<and> n \<le> 70 then Some (n - 55)
         else if 97 \<le> n \<and> n \<le> 102 then Some (n - 87)
         else None)"

definition hex4 :: "string \<Rightarrow> nat option" where
  "hex4 cs =
     (case map hex_val (take 4 cs) of
        [Some a, Some b, Some c, Some d] \<Rightarrow> Some (((a * 16 + b) * 16 + c) * 16 + d)
      | _ \<Rightarrow> None)"

text \<open>
  A \<^verbatim>\<open>\\uXXXX\<close> escape names a UTF-16 code unit. The string takes the UTF-8 bytes
  of its code point; a high surrogate takes the low surrogate of the escape that follows
  it, and a surrogate on its own is written as U+FFFD, as it is when the string is sent
  to the store.
\<close>

definition utf8 :: "nat \<Rightarrow> string" where
  "utf8 n =
     (if n < 0x80 then [char_of n]
      else if n < 0x800 then [char_of (0xC0 + n div 64), char_of (0x80 + n mod 64)]
      else if n < 0x10000 then
        [char_of (0xE0 + n div 4096), char_of (0x80 + (n div 64) mod 64), char_of (0x80 + n mod 64)]
      else
        [char_of (0xF0 + n div 262144), char_of (0x80 + (n div 4096) mod 64),
         char_of (0x80 + (n div 64) mod 64), char_of (0x80 + n mod 64)])"

definition unicode_escape :: "string \<Rightarrow> (string \<times> string) option" where
  "unicode_escape cs =
     (case hex4 cs of
        None \<Rightarrow> None
      | Some u \<Rightarrow>
          let r = drop 4 cs
          in if 0xD800 \<le> u \<and> u < 0xDC00 then
               (case (if take 2 r = [CHR 0x5C, CHR ''u''] then hex4 (drop 2 r) else None) of
                  Some l \<Rightarrow>
                    if 0xDC00 \<le> l \<and> l < 0xE000
                    then Some (utf8 (0x10000 + (u - 0xD800) * 0x400 + (l - 0xDC00)), drop 6 r)
                    else Some (utf8 0xFFFD, r)
                | None \<Rightarrow> Some (utf8 0xFFFD, r))
             else if 0xDC00 \<le> u \<and> u < 0xE000 then Some (utf8 0xFFFD, r)
             else Some (utf8 u, r))"

text \<open>The character after a backslash, with the rest of the input.\<close>

definition unescape :: "string \<Rightarrow> (string \<times> string) option" where
  "unescape cs =
     (case cs of
        [] \<Rightarrow> None
      | e # r \<Rightarrow>
          if e = CHR 0x22 \<or> e = CHR 0x5C \<or> e = CHR ''/'' then Some ([e], r)
          else if e = CHR ''b'' then Some ([CHR 0x08], r)
          else if e = CHR ''f'' then Some ([CHR 0x0C], r)
          else if e = CHR ''n'' then Some ([CHR 0x0A], r)
          else if e = CHR ''r'' then Some ([CHR 0x0D], r)
          else if e = CHR ''t'' then Some ([CHR 0x09], r)
          else if e = CHR ''u'' then unicode_escape r
          else None)"

lemma unicode_escape_length:
  "unicode_escape cs = Some (bs, r) \<Longrightarrow> length r \<le> length cs"
  by (auto simp: unicode_escape_def Let_def split: option.splits if_splits)

lemma unescape_length: "unescape cs = Some (bs, r) \<Longrightarrow> length r < Suc (length cs)"
  by (auto simp: unescape_def split: list.splits if_splits dest: unicode_escape_length)

text \<open>
  A string literal after its opening quote, up to the closing quote: the string it
  denotes and the rest of the input. A control character must be escaped.
\<close>

function scan_string :: "string \<Rightarrow> (string \<times> string) option" where
  "scan_string [] = None"
| "scan_string (c # cs) =
     (if c = CHR 0x22 then Some ([], cs)
      else if c = CHR 0x5C then
        (case unescape cs of
           None \<Rightarrow> None
         | Some (bs, r) \<Rightarrow>
             (case scan_string r of None \<Rightarrow> None | Some (s, rest) \<Rightarrow> Some (bs @ s, rest)))
      else if (of_char c :: nat) < 32 then None
      else (case scan_string cs of None \<Rightarrow> None | Some (s, rest) \<Rightarrow> Some (c # s, rest)))"
  by pat_completeness auto
termination
  by (relation "measure length") (auto dest: unescape_length)

text \<open>
  A number literal: an optional minus, an integer part without a leading zero, an
  optional fraction, an optional exponent. Its value is the exact decimal value.
\<close>

definition scan_int :: "string \<Rightarrow> (string \<times> string) option" where
  "scan_int cs =
     (case cs of
        [] \<Rightarrow> None
      | c # r \<Rightarrow>
          if c = CHR ''0'' then Some ([c], r)
          else if is_digit c then Some (c # takeWhile is_digit r, dropWhile is_digit r)
          else None)"

definition scan_frac :: "string \<Rightarrow> (string \<times> string) option" where
  "scan_frac cs =
     (case cs of
        [] \<Rightarrow> Some ([], [])
      | c # r \<Rightarrow>
          if c = CHR ''.'' then
            (if takeWhile is_digit r = [] then None
             else Some (takeWhile is_digit r, dropWhile is_digit r))
          else Some ([], cs))"

definition scan_exp_digits :: "bool \<Rightarrow> string \<Rightarrow> (int \<times> string) option" where
  "scan_exp_digits neg cs =
     (if takeWhile is_digit cs = [] then None
      else Some ((if neg then - int (digits_val (takeWhile is_digit cs))
                  else int (digits_val (takeWhile is_digit cs))),
                 dropWhile is_digit cs))"

definition scan_exp :: "string \<Rightarrow> (int \<times> string) option" where
  "scan_exp cs =
     (case cs of
        [] \<Rightarrow> Some (0, [])
      | c # r \<Rightarrow>
          if c = CHR ''e'' \<or> c = CHR ''E'' then
            (case r of
               [] \<Rightarrow> None
             | s # r' \<Rightarrow>
                 if s = CHR ''-'' then scan_exp_digits True r'
                 else if s = CHR ''+'' then scan_exp_digits False r'
                 else scan_exp_digits False r)
          else Some (0, cs))"

definition decimal_value :: "bool \<Rightarrow> string \<Rightarrow> string \<Rightarrow> int \<Rightarrow> rat" where
  "decimal_value neg ip fp e =
     (let m = (of_nat (digits_val (ip @ fp)) :: rat);
          e' = e - int (length fp);
          v = (if 0 \<le> e' then m * 10 ^ nat e' else m / 10 ^ nat (- e'))
      in if neg then - v else v)"

definition scan_unsigned :: "bool \<Rightarrow> string \<Rightarrow> (rat \<times> string) option" where
  "scan_unsigned neg cs =
     (case scan_int cs of
        None \<Rightarrow> None
      | Some (ip, cs2) \<Rightarrow>
          (case scan_frac cs2 of
             None \<Rightarrow> None
           | Some (fp, cs3) \<Rightarrow>
               (case scan_exp cs3 of
                  None \<Rightarrow> None
                | Some (e, cs4) \<Rightarrow> Some (decimal_value neg ip fp e, cs4))))"

definition scan_number :: "string \<Rightarrow> (rat \<times> string) option" where
  "scan_number cs =
     (case cs of
        [] \<Rightarrow> None
      | c # r \<Rightarrow> if c = CHR ''-'' then scan_unsigned True r else scan_unsigned False cs)"

lemma scan_int_length: "scan_int cs = Some (ip, r) \<Longrightarrow> length r < length cs"
  by (auto simp: scan_int_def less_Suc_eq_le length_dropWhile_le split: list.splits if_splits)

lemma scan_frac_length: "scan_frac cs = Some (fp, r) \<Longrightarrow> length r \<le> length cs"
  by (auto simp: scan_frac_def le_SucI length_dropWhile_le split: list.splits if_splits)

lemma scan_exp_digits_length: "scan_exp_digits neg cs = Some (e, r) \<Longrightarrow> length r \<le> length cs"
  by (auto simp: scan_exp_digits_def length_dropWhile_le split: if_splits)

lemma scan_exp_length: "scan_exp cs = Some (e, r) \<Longrightarrow> length r \<le> length cs"
  by (auto simp: scan_exp_def split: list.splits if_splits dest!: scan_exp_digits_length)

lemma scan_unsigned_length: "scan_unsigned neg cs = Some (q, r) \<Longrightarrow> length r < length cs"
  by (auto simp: scan_unsigned_def split: option.splits
           dest!: scan_int_length scan_frac_length scan_exp_length)

lemma scan_number_length: "scan_number cs = Some (q, r) \<Longrightarrow> length r < length cs"
  by (auto simp: scan_number_def split: list.splits if_splits dest!: scan_unsigned_length)

lemma scan_string_length: "scan_string cs = Some (s, r) \<Longrightarrow> length r < length cs"
proof (induction cs arbitrary: s r rule: scan_string.induct)
  case 1
  then show ?case by simp
next
  case (2 c cs)
  then show ?case
    by (fastforce split: if_splits option.splits dest: unescape_length)
qed

subsection \<open>Tokens\<close>

datatype token =
    TLBrace | TRBrace | TLBracket | TRBracket | TComma | TColon
  | TString string | TNumber rat | TTrue | TFalse | TNull

definition cons_token :: "token \<Rightarrow> token list option \<Rightarrow> token list option" where
  "cons_token t r = (case r of None \<Rightarrow> None | Some ts \<Rightarrow> Some (t # ts))"

definition after_prefix :: "string \<Rightarrow> string \<Rightarrow> string option" where
  "after_prefix p cs = (if take (length p) cs = p then Some (drop (length p) cs) else None)"

definition next_token :: "char \<Rightarrow> string \<Rightarrow> (token \<times> string) option" where
  "next_token c cs =
     (if c = CHR ''{'' then Some (TLBrace, cs)
      else if c = CHR ''}'' then Some (TRBrace, cs)
      else if c = CHR ''['' then Some (TLBracket, cs)
      else if c = CHR '']'' then Some (TRBracket, cs)
      else if c = CHR '','' then Some (TComma, cs)
      else if c = CHR '':'' then Some (TColon, cs)
      else if c = CHR 0x22 then
        (case scan_string cs of None \<Rightarrow> None | Some (s, r) \<Rightarrow> Some (TString s, r))
      else if c = CHR ''-'' \<or> is_digit c then
        (case scan_number (c # cs) of None \<Rightarrow> None | Some (q, r) \<Rightarrow> Some (TNumber q, r))
      else if c = CHR ''t'' then
        (case after_prefix ''rue'' cs of None \<Rightarrow> None | Some r \<Rightarrow> Some (TTrue, r))
      else if c = CHR ''f'' then
        (case after_prefix ''alse'' cs of None \<Rightarrow> None | Some r \<Rightarrow> Some (TFalse, r))
      else if c = CHR ''n'' then
        (case after_prefix ''ull'' cs of None \<Rightarrow> None | Some r \<Rightarrow> Some (TNull, r))
      else None)"

lemma after_prefix_length: "after_prefix p cs = Some r \<Longrightarrow> length r \<le> length cs"
  by (auto simp: after_prefix_def split: if_splits)

lemma next_token_length:
  assumes "next_token c cs = Some (t, r)"
  shows "length r \<le> length cs"
proof -
  consider "r = cs"
    | s where "scan_string cs = Some (s, r)"
    | q where "scan_number (c # cs) = Some (q, r)"
    | p where "after_prefix p cs = Some r"
    using assms unfolding next_token_def
    by (simp split: if_splits option.splits prod.splits)
  then show ?thesis
  proof cases
    case 1
    then show ?thesis by simp
  next
    case 2
    then show ?thesis using scan_string_length by fastforce
  next
    case 3
    then show ?thesis using scan_number_length by fastforce
  next
    case 4
    then show ?thesis using after_prefix_length by blast
  qed
qed

function lex :: "string \<Rightarrow> token list option" where
  "lex [] = Some []"
| "lex (c # cs) =
     (if is_ws c then lex cs
      else (case next_token c cs of
              None \<Rightarrow> None
            | Some (t, r) \<Rightarrow> cons_token t (lex r)))"
  by pat_completeness auto
termination
  by (relation "measure length") (auto dest: next_token_length simp: less_Suc_eq_le)

subsection \<open>Values\<close>

text \<open>
  The parser reads the tokens from left to right and keeps the arrays and objects that
  are still open on a stack: the elements read so far (last first), or the properties
  created so far and the key whose value is being read. A key that comes again
  overwrites the value of the property.
\<close>

datatype frame = InArray "jsval list" | InObject "(string \<times> jsval) list" string

datatype pstate =
    PValue "frame list"
  | PArrayFirst "frame list"
  | PArrayNext "jsval list" "frame list"
  | PObjectFirst "frame list"
  | PObjectKey "(string \<times> jsval) list" "frame list"
  | PObjectColon "(string \<times> jsval) list" string "frame list"
  | PObjectNext "(string \<times> jsval) list" "frame list"
  | PDone jsval

fun complete :: "jsval \<Rightarrow> frame list \<Rightarrow> pstate" where
  "complete v [] = PDone v"
| "complete v (InArray acc # st) = PArrayNext (v # acc) st"
| "complete v (InObject acc k # st) = PObjectNext (AList.update k v acc) st"

fun start_value :: "frame list \<Rightarrow> token \<Rightarrow> pstate option" where
  "start_value st (TString s) = Some (complete (JStr s) st)"
| "start_value st (TNumber q) = Some (complete (JNum q) st)"
| "start_value st TTrue = Some (complete (JBool True) st)"
| "start_value st TFalse = Some (complete (JBool False) st)"
| "start_value st TNull = Some (complete JNull st)"
| "start_value st TLBracket = Some (PArrayFirst st)"
| "start_value st TLBrace = Some (PObjectFirst st)"
| "start_value st _ = None"

fun pstep :: "pstate \<Rightarrow> token \<Rightarrow> pstate option" where
  "pstep (PValue st) t = start_value st t"
| "pstep (PArrayFirst st) t =
     (if t = TRBracket then Some (complete (JArr []) st) else start_value (InArray [] # st) t)"
| "pstep (PArrayNext acc st) t =
     (if t = TComma then Some (PValue (InArray acc # st))
      else if t = TRBracket then Some (complete (JArr (rev acc)) st)
      else None)"
| "pstep (PObjectFirst st) t =
     (case t of
        TRBrace \<Rightarrow> Some (complete (JObj []) st)
      | TString k \<Rightarrow> Some (PObjectColon [] k st)
      | _ \<Rightarrow> None)"
| "pstep (PObjectKey acc st) t =
     (case t of TString k \<Rightarrow> Some (PObjectColon acc k st) | _ \<Rightarrow> None)"
| "pstep (PObjectColon acc k st) t =
     (if t = TColon then Some (PValue (InObject acc k # st)) else None)"
| "pstep (PObjectNext acc st) t =
     (if t = TComma then Some (PObjectKey acc st)
      else if t = TRBrace then Some (complete (JObj acc) st)
      else None)"
| "pstep (PDone v) t = None"

fun prun :: "pstate \<Rightarrow> token list \<Rightarrow> jsval option" where
  "prun p [] = (case p of PDone v \<Rightarrow> Some v | _ \<Rightarrow> None)"
| "prun p (t # ts) = (case pstep p t of None \<Rightarrow> None | Some p' \<Rightarrow> prun p' ts)"

text \<open>\<^verbatim>\<open>JSON.parse\<close> of a string: \<open>None\<close> when it throws a syntax error.\<close>

definition JSON_parse :: "string \<Rightarrow> jsval option" where
  "JSON_parse s = (case lex s of None \<Rightarrow> None | Some ts \<Rightarrow> prun (PValue []) ts)"

text \<open>
  Whether a value is truthy. A number is falsy when it is zero as a double: the decimal
  values up to half the least positive double, which is 2 to the power -1075, round to
  zero.
\<close>

fun truthy :: "jsval \<Rightarrow> bool" where
  "truthy JUndefined = False"
| "truthy JNull = False"
| "truthy (JBool b) = b"
| "truthy (JNum q) = (\<bar>q\<bar> > 1 / 2 ^ 1075)"
| "truthy (JStr s) = (s \<noteq> [])"
| "truthy (JArr xs) = True"
| "truthy (JObj ms) = True"

section \<open>Line sequences of a file\<close>

text \<open>
  A string stands for the UTF-8 bytes of a JavaScript string. The edit engine only looks
  for the newline character, so \<open>split\<close> and \<open>join\<close> on the newline are exact on bytes.
\<close>

abbreviation NL :: char where
  "NL \<equiv> CHR 0x0A"

text \<open>\<^verbatim>\<open>fileContent.split("\n")\<close>: the empty string gives one empty line.\<close>

fun split_nl :: "string \<Rightarrow> string list" where
  "split_nl [] = [[]]"
| "split_nl (c # cs) =
     (if c = NL then [] # split_nl cs
      else (case split_nl cs of [] \<Rightarrow> [[c]] | l # ls \<Rightarrow> (c # l) # ls))"

text \<open>\<^verbatim>\<open>lines.join("\n")\<close>: the empty array gives the empty string.\<close>

fun join_nl :: "string list \<Rightarrow> string" where
  "join_nl [] = []"
| "join_nl [l] = l"
| "join_nl (l # m # ls) = l @ NL # join_nl (m # ls)"

text \<open>
  \<^verbatim>\<open>array.splice(start, deleteCount, ...items)\<close> for integer arguments, giving the
  array after the call: a negative start counts from the end, a start past the end is the
  end, and the delete count is cut to what is there.
\<close>

definition js_splice :: "int \<Rightarrow> int \<Rightarrow> 'a list \<Rightarrow> 'a list \<Rightarrow> 'a list" where
  "js_splice start deleteCount items xs =
     (let len = int (length xs);
          actualStart = (if start < 0 then max (len + start) 0 else min start len);
          actualDeleteCount = min (max deleteCount 0) (len - actualStart)
      in take (nat actualStart) xs @ items @ drop (nat (actualStart + actualDeleteCount)) xs)"

text \<open>
  \<^verbatim>\<open>lines[idx] = v\<close> where the source has checked \<open>idx < lines.length\<close>: a negative
  \<open>idx\<close> names a property of the array object, not an element, and the line sequence
  stays as it is.
\<close>

definition set_index :: "'a list \<Rightarrow> int \<Rightarrow> 'a \<Rightarrow> 'a list" where
  "set_index xs idx v = (if 0 \<le> idx then xs[nat idx := v] else xs)"

section \<open>The edit engine (diffLine)\<close>

datatype op_kind = Insert | Delete | Replace

text \<open>One entry of \<^verbatim>\<open>updates\<close>; \<open>lineContent\<close> is \<open>None\<close> for the source's \<^verbatim>\<open>null\<close>.\<close>

record update =
  fileName :: string
  op :: op_kind
  lineNumber :: int
  lineContent :: "string option"

text \<open>
  The \<^verbatim>\<open>lineContent\<close> field of a request: one line or an array of lines
  (\<^verbatim>\<open>Array.isArray(lineContent) ? lineContent : [lineContent]\<close>). Lines are strings.
\<close>

datatype line_content = OneLine string | ManyLines "string list"

fun to_array :: "line_content \<Rightarrow> string list" where
  "to_array (ManyLines ls) = ls"
| "to_array (OneLine l) = [l]"

text \<open>
  \<^verbatim>\<open>typeof count === "number" && count > 0 ? count : 1\<close>; \<open>None\<close> is an absent
  count or one that is not a number.
\<close>

definition delete_count :: "int option \<Rightarrow> int" where
  "delete_count cnt = (case cnt of None \<Rightarrow> 1 | Some c \<Rightarrow> if c > 0 then c else 1)"

text \<open>The loop of the insert branch: one insert update per inserted line.\<close>

fun insert_updates :: "string \<Rightarrow> int \<Rightarrow> nat \<Rightarrow> string list \<Rightarrow> update list" where
  "insert_updates fname lnum i [] = []"
| "insert_updates fname lnum i (v # vs) =
     \<lparr>fileName = fname, op = Insert, lineNumber = lnum + int i, lineContent = Some v\<rparr>
       # insert_updates fname lnum (Suc i) vs"

text \<open>
  The loop of the replace branch, from offset \<open>i\<close> on: a line inside the current
  sequence is overwritten, a line past its end is spliced in and reported as an insert.
\<close>

fun replace_loop ::
  "string \<Rightarrow> int \<Rightarrow> nat \<Rightarrow> string list \<Rightarrow> string list \<times> update list
     \<Rightarrow> string list \<times> update list" where
  "replace_loop fname lnum i [] (lines, updates) = (lines, updates)"
| "replace_loop fname lnum i (v # vs) (lines, updates) =
     (if lnum + int i < int (length lines)
      then replace_loop fname lnum (Suc i) vs
             (set_index lines (lnum + int i) v,
              updates @ [\<lparr>fileName = fname, op = Replace, lineNumber = lnum + int i,
                          lineContent = Some v\<rparr>])
      else replace_loop fname lnum (Suc i) vs
             (js_splice (lnum + int i) 0 [v] lines,
              updates @ [\<lparr>fileName = fname, op = Insert, lineNumber = lnum + int i,
                          lineContent = Some v\<rparr>]))"

text \<open>
  The three branches of the handler on the line sequence it has read: the new line
  sequence and the updates to broadcast.
\<close>

fun apply_edit ::
  "string \<Rightarrow> op_kind \<Rightarrow> int \<Rightarrow> line_content \<Rightarrow> int option \<Rightarrow> string list
     \<Rightarrow> string list \<times> update list" where
  "apply_edit fname Insert lnum lc cnt lines =
     (js_splice lnum 0 (to_array lc) lines, insert_updates fname lnum 0 (to_array lc))"
| "apply_edit fname Delete lnum lc cnt lines =
     (js_splice lnum (delete_count cnt) [] lines,
      replicate (nat (delete_count cnt))
        \<lparr>fileName = fname, op = Delete, lineNumber = lnum, lineContent = None\<rparr>)"
| "apply_edit fname Replace lnum lc cnt lines = replace_loop fname lnum 0 (to_array lc) (lines, [])"

section \<open>External collaborators\<close>

text \<open>
  What the program throws: \<open>Error\<close> is \<^verbatim>\<open>new Error(message)\<close> of the source,
  \<open>TypeError\<close> a type error of the runtime, \<open>Rejected\<close> the failure of a call to the
  store, the file system or the sandbox, with its message.
\<close>

datatype error = Error string | TypeError string | Rejected string

fun message :: "error \<Rightarrow> string" where
  "message (Error m) = m"
| "message (TypeError m) = m"
| "message (Rejected m) = m"

text \<open>
  The collaborators the core only calls: which calls fail (\<open>Some\<close> the message of the
  exception), Redis's \<^verbatim>\<open>MATCH\<close> patterns, how a value that is not a string is
  rendered for the store (\<^verbatim>\<open>JSON.stringify\<close> for what \<^verbatim>\<open>typeof\<close> calls an
  object, the Redis client's conversion of an argument otherwise), the digest of the
  fetched files (\<^verbatim>\<open>sha256(JSON.stringify(files))\<close>, in hex) and path names.
\<close>

record externals =
  redisError :: "string \<Rightarrow> string option"
  scanError :: "string \<Rightarrow> string option"
  globMatch :: "string \<Rightarrow> string \<Rightarrow> bool"
  renderValue :: "jsval \<Rightarrow> string"
  sha256Hex :: "(string \<times> jsval) list \<Rightarrow> string"
  baseTmpDir :: string
  pathJoin :: "string \<Rightarrow> string \<Rightarrow> string"
  mkdirError :: "string \<Rightarrow> string option"
  writeFileError :: "string \<Rightarrow> jsval \<Rightarrow> string option"
  spawnError :: "string \<Rightarrow> jsval list \<Rightarrow> string option"
  killError :: "nat \<Rightarrow> string option"
  ptyWriteError :: "nat \<Rightarrow> string \<Rightarrow> string option"

section \<open>State of the server\<close>

text \<open>One entry of \<^verbatim>\<open>this.sessions\<close>; a process handle is a number.\<close>

record session =
  ptyProcess :: nat
  sessionDir :: string
  containerName :: string

text \<open>The events the server sends; a client is a number, which also stands for its session id.\<close>

datatype outbound =
    FilesMsg "(string \<times> jsval) list"
  | Output string
  | Exit int
  | RunStatus bool
  | Stopped string bool "string option"
  | LineUpdated update
  | MovedCursor nat jsval jsval jsval
  | DeleteCursor nat
  | InputChanged jsval
  | RenameFileStatus string string
  | DeleteFileStatus string
  | DuplicateFileStatus string string
  | RunRan
  | ErrorMsg string string

text \<open>
  What the server does to the outside, in order: a message sent to a client, a call of
  \<^verbatim>\<open>pty.spawn\<close> (with the handle it returned, \<open>None\<close> when it threw), a kill of a
  process handle, a write to a process handle.
\<close>

datatype effect =
    Send nat outbound
  | Spawn string "jsval list" "nat option"
  | Kill nat
  | Write nat string

text \<open>
  A handler is modelled as running to its end: what other connections do while it waits
  for the store or the sandbox is not part of the model.

  The store (keys in scan order), the files and directories on disk, the two maps of the
  session manager (\<^verbatim>\<open>sessions\<close>, \<^verbatim>\<open>clientsMap\<close>, a set in insertion order),
  \<^verbatim>\<open>wss.clients\<close>, every client's \<^verbatim>\<open>ws.environmentId\<close> and whether its
  \<^verbatim>\<open>readyState\<close> is \<^verbatim>\<open>OPEN\<close>, the environment whose handlers are registered on a
  process handle, the effects so far and the next process handle.
\<close>

record state =
  store :: "(string \<times> string) list"
  fsFiles :: "string \<rightharpoonup> jsval"
  fsDirs :: "string set"
  sessions :: "string \<rightharpoonup> session"
  clientsMap :: "string \<rightharpoonup> nat list"
  wssClients :: "nat list"
  environmentId :: "nat \<rightharpoonup> string"
  isOpen :: "nat \<Rightarrow> bool"
  ptyHandlers :: "nat \<rightharpoonup> string"
  trace :: "effect list"
  nextHandle :: nat

definition emit :: "effect list \<Rightarrow> state \<Rightarrow> state" where
  "emit es st = st\<lparr>trace := trace st @ es\<rparr>"

section \<open>The store adapter (redis.js)\<close>

text \<open>\<^verbatim>\<open>redis.get(key)\<close>: the stored string, \<open>None\<close> for \<^verbatim>\<open>null\<close> (no such key).\<close>

definition redis_get :: "externals \<Rightarrow> string \<Rightarrow> state \<Rightarrow> error + string option" where
  "redis_get ext key st =
     (case redisError ext key of
        Some m \<Rightarrow> Inl (Rejected m)
      | None \<Rightarrow> Inr (map_of (store st) key))"

text \<open>
  \<^verbatim>\<open>get(key)\<close>: the value parsed as JSON when it parses, the string itself otherwise.
  \<^verbatim>\<open>JSON.parse(null)\<close> is \<^verbatim>\<open>null\<close>.
\<close>

definition get :: "externals \<Rightarrow> string \<Rightarrow> state \<Rightarrow> error + jsval" where
  "get ext key st =
     (case redis_get ext key st of
        Inl e \<Rightarrow> Inl e
      | Inr None \<Rightarrow> Inr JNull
      | Inr (Some s) \<Rightarrow> (case JSON_parse s of Some v \<Rightarrow> Inr v | None \<Rightarrow> Inr (JStr s)))"

text \<open>
  \<^verbatim>\<open>set(key, value)\<close>, which no caller gives an expiry: a string is stored as it is,
  any other value as the collaborators render it.
\<close>

definition set_value :: "externals \<Rightarrow> string \<Rightarrow> jsval \<Rightarrow> state \<Rightarrow> error + state" where
  "set_value ext key v st =
     (let stringValue = (case v of JStr s \<Rightarrow> s | _ \<Rightarrow> renderValue ext v)
      in case redisError ext key of
           Some m \<Rightarrow> Inl (Rejected m)
         | None \<Rightarrow> Inr (st\<lparr>store := AList.update key stringValue (store st)\<rparr>))"

text \<open>\<^verbatim>\<open>redis.del(key)\<close>.\<close>

definition redis_del :: "externals \<Rightarrow> string \<Rightarrow> state \<Rightarrow> error + state" where
  "redis_del ext key st =
     (case redisError ext key of
        Some m \<Rightarrow> Inl (Rejected m)
      | None \<Rightarrow> Inr (st\<lparr>store := AList.delete key (store st)\<rparr>))"

text \<open>The key of a file: \<^verbatim>\<open>`${environmentId}_${fileName}`\<close>.\<close>

definition fileKey :: "string \<Rightarrow> string \<Rightarrow> string" where
  "fileKey env fname = env @ ''_'' @ fname"

section \<open>The session manager (ContainerSessionManager.js)\<close>

text \<open>\<^verbatim>\<open>Set.prototype.add\<close> and \<^verbatim>\<open>Set.prototype.delete\<close> on a set kept in insertion order.\<close>

definition set_add :: "nat \<Rightarrow> nat list \<Rightarrow> nat list" where
  "set_add c cs = (if c \<in> set cs then cs else cs @ [c])"

definition set_delete :: "nat \<Rightarrow> nat list \<Rightarrow> nat list" where
  "set_delete c cs = removeAll c cs"

definition registerClient :: "string \<Rightarrow> nat \<Rightarrow> state \<Rightarrow> state" where
  "registerClient env client st =
     (let cs = (case clientsMap st env of None \<Rightarrow> [] | Some cs \<Rightarrow> cs)
      in st\<lparr>clientsMap := (clientsMap st)(env \<mapsto> set_add client cs)\<rparr>)"

text \<open>
  \<^verbatim>\<open>stopSession\<close>: without a session, false. Otherwise the \<^verbatim>\<open>docker kill\<close> is
  spawned, the process handle is killed and the record deleted; an exception of either
  call is caught, the record is deleted all the same and the result is false.
\<close>

definition stopSession :: "externals \<Rightarrow> string \<Rightarrow> state \<Rightarrow> bool \<times> state" where
  "stopSession ext env st =
     (case sessions st env of
        None \<Rightarrow> (False, st)
      | Some sess \<Rightarrow>
          let args = [JStr ''kill'', JStr (containerName sess)]
          in case spawnError ext ''docker'' args of
               Some m \<Rightarrow>
                 (False, (emit [Spawn ''docker'' args None] st)
                           \<lparr>sessions := (sessions st)(env := None)\<rparr>)
             | None \<Rightarrow>
                 let st1 = (emit [Spawn ''docker'' args (Some (nextHandle st)),
                                  Kill (ptyProcess sess)] st)
                             \<lparr>nextHandle := Suc (nextHandle st),
                              sessions := (sessions st)(env := None)\<rparr>
                 in (killError ext (ptyProcess sess) = None, st1))"

text \<open>
  \<^verbatim>\<open>unregisterClient\<close>; \<^verbatim>\<open>stopSession\<close> is called without \<^verbatim>\<open>await\<close>, and
  its body has no suspension point, so it has run when the entry is deleted.
\<close>

definition unregisterClient :: "externals \<Rightarrow> string \<Rightarrow> nat \<Rightarrow> state \<Rightarrow> state" where
  "unregisterClient ext env client st =
     (case clientsMap st env of
        None \<Rightarrow> st
      | Some cs \<Rightarrow>
          let st1 = st\<lparr>clientsMap := (clientsMap st)(env \<mapsto> set_delete client cs)\<rparr>
          in if length (set_delete client cs) = 0
             then (let st2 = snd (stopSession ext env st1)
                   in st2\<lparr>clientsMap := (clientsMap st2)(env := None)\<rparr>)
             else st1)"

definition broadcastToEnvironment :: "string \<Rightarrow> outbound \<Rightarrow> state \<Rightarrow> state" where
  "broadcastToEnvironment env msg st =
     (case clientsMap st env of
        None \<Rightarrow> st
      | Some cs \<Rightarrow> emit (map (\<lambda>c. Send c msg) (filter (isOpen st) cs)) st)"

text \<open>The body that \<^verbatim>\<open>buildFileObject\<close> gives \<^verbatim>\<open>main.py\<close> when the store has none.\<close>

definition default_main :: string where
  "default_main =
     ''import time'' @ [NL] @ ''while True:'' @ [NL] @ '' print('' @ [CHR 0x22]
       @ ''hello world'' @ [CHR 0x22] @ '')'' @ [NL] @ '' time.sleep(1)''"

text \<open>What one file name gives, from the value read for it.\<close>

definition file_content :: "string \<Rightarrow> jsval \<Rightarrow> jsval" where
  "file_content fname v =
     (let fileContent = (if \<not> truthy v \<and> fname = ''main.py'' then JStr default_main else v)
      in if truthy fileContent then fileContent else JStr [])"

text \<open>\<^verbatim>\<open>Promise.all\<close> over the file names: the first rejected read rejects the whole.\<close>

fun fetch_files ::
  "externals \<Rightarrow> string \<Rightarrow> state \<Rightarrow> string list \<Rightarrow> error + (string \<times> jsval) list" where
  "fetch_files ext env st [] = Inr []"
| "fetch_files ext env st (f # fs) =
     (case get ext (fileKey env f) st of
        Inl e \<Rightarrow> Inl e
      | Inr v \<Rightarrow>
          (case fetch_files ext env st fs of
             Inl e \<Rightarrow> Inl e
           | Inr rs \<Rightarrow> Inr ((f, file_content f v) # rs)))"

text \<open>
  \<^verbatim>\<open>buildFileObject\<close>: the object \<^verbatim>\<open>files\<close> (a later entry of the same name
  overwrites the earlier one) and its digest.
\<close>

definition buildFileObject ::
  "externals \<Rightarrow> string list \<Rightarrow> string \<Rightarrow> state
     \<Rightarrow> error + (string \<times> jsval) list \<times> string" where
  "buildFileObject ext fileNames env st =
     (case fetch_files ext env st fileNames of
        Inl e \<Rightarrow> Inl e
      | Inr fileResults \<Rightarrow>
          let files = foldl (\<lambda>acc (f, c). AList.update f c acc) [] fileResults
          in Inr (files, sha256Hex ext files))"

fun write_entries ::
  "externals \<Rightarrow> string \<Rightarrow> (string \<times> jsval) list \<Rightarrow> state \<Rightarrow> (error + unit) \<times> state" where
  "write_entries ext dir [] st = (Inr (), st)"
| "write_entries ext dir ((f, c) # es) st =
     (case writeFileError ext (pathJoin ext dir f) c of
        Some m \<Rightarrow> (Inl (Rejected m), st)
      | None \<Rightarrow>
          write_entries ext dir es (st\<lparr>fsFiles := (fsFiles st)(pathJoin ext dir f \<mapsto> c)\<rparr>))"

text \<open>\<^verbatim>\<open>writeFilesToDir\<close>: the session directory, made when missing, and every file written.\<close>

definition writeFilesToDir ::
  "externals \<Rightarrow> string \<Rightarrow> (string \<times> jsval) list \<Rightarrow> state \<Rightarrow> (error + string) \<times> state" where
  "writeFilesToDir ext env files st =
     (let dir = pathJoin ext (baseTmpDir ext) env
      in case (if dir \<in> fsDirs st then None else mkdirError ext dir) of
           Some m \<Rightarrow> (Inl (Rejected m), st)
         | None \<Rightarrow>
             (case write_entries ext dir files (st\<lparr>fsDirs := insert dir (fsDirs st)\<rparr>) of
                (Inl e, st') \<Rightarrow> (Inl e, st')
              | (Inr u, st') \<Rightarrow> (Inr dir, st')))"

text \<open>The arguments of the \<^verbatim>\<open>docker run\<close>; the entry file is undefined when no file is named.\<close>

definition mainFile :: "string list \<Rightarrow> jsval" where
  "mainFile fileNames =
     (if ''main.py'' \<in> set fileNames then JStr ''main.py''
      else (case fileNames of [] \<Rightarrow> JUndefined | f # _ \<Rightarrow> JStr f))"

definition dockerArgs :: "string \<Rightarrow> string \<Rightarrow> jsval \<Rightarrow> jsval list" where
  "dockerArgs name dir entry =
     map JStr [''run'', ''--rm'', ''-it'', ''--name'', name, ''--network=none'',
               ''--memory=256m'', ''--cpus=0.5'', ''-v'', dir @ '':/workspace'', ''-w'',
               ''/workspace'', ''python:3.9-slim'', ''python3'', ''-u'']
       @ [entry]"

text \<open>
  The \<^verbatim>\<open>try\<close> block of \<^verbatim>\<open>startSession\<close>. The files fetched from the store are
  written to the session directory; only then is \<^verbatim>\<open>files\<close> reassigned to the
  client's files on a hash mismatch, and nothing reads the variable afterwards.
\<close>

definition startSession_try ::
  "externals \<Rightarrow> string \<Rightarrow> string list \<Rightarrow> jsval \<Rightarrow> jsval \<Rightarrow> state \<Rightarrow> (error + unit) \<times> state" where
  "startSession_try ext env fileNames hash clientFiles st =
     (case buildFileObject ext fileNames env st of
        Inl e \<Rightarrow> (Inl e, st)
      | Inr (files, serverHash) \<Rightarrow>
          (case writeFilesToDir ext env files st of
             (Inl e, st1) \<Rightarrow> (Inl e, st1)
           | (Inr dir, st1) \<Rightarrow>
               let entry = mainFile fileNames;
                   files2 = (if hash \<noteq> JStr serverHash then clientFiles else JObj files);
                   name = ''nixpackpy_'' @ env;
                   args = dockerArgs name dir entry
               in case spawnError ext ''docker'' args of
                    Some m \<Rightarrow> (Inl (Rejected m), emit [Spawn ''docker'' args None] st1)
                  | None \<Rightarrow>
                      (Inr (),
                       (emit [Spawn ''docker'' args (Some (nextHandle st1))] st1)
                         \<lparr>nextHandle := Suc (nextHandle st1),
                          ptyHandlers := (ptyHandlers st1)(nextHandle st1 \<mapsto> env),
                          sessions := (sessions st1)(env \<mapsto>
                            \<lparr>ptyProcess = nextHandle st1, sessionDir = dir,
                             containerName = name\<rparr>)\<rparr>)))"

text \<open>
  The head of \<^verbatim>\<open>startSession\<close>: an existing session of the environment is stopped
  and the stop announced to the environment, with \<^verbatim>\<open>success: true\<close> whatever
  \<^verbatim>\<open>stopSession\<close> returned.
\<close>

definition restart_existing :: "externals \<Rightarrow> string \<Rightarrow> state \<Rightarrow> state" where
  "restart_existing ext env st =
     (if sessions st env \<noteq> None
      then broadcastToEnvironment env (Stopped env True (Some ''restarted''))
             (snd (stopSession ext env st))
      else st)"

text \<open>
  \<^verbatim>\<open>startSession\<close>: the head, then the \<^verbatim>\<open>try\<close> block; its exception becomes an
  output line and an exit with code 1, both broadcast to the environment.
\<close>

definition startSession ::
  "externals \<Rightarrow> string \<Rightarrow> string list \<Rightarrow> jsval \<Rightarrow> jsval \<Rightarrow> state \<Rightarrow> bool \<times> state" where
  "startSession ext env fileNames hash clientFiles st =
     (case startSession_try ext env fileNames hash clientFiles (restart_existing ext env st) of
        (Inr u, st2) \<Rightarrow> (True, st2)
      | (Inl e, st2) \<Rightarrow>
          (False,
           broadcastToEnvironment env (Exit 1)
             (broadcastToEnvironment env
                (Output (''Error starting session: '' @ message e)) st2)))"

text \<open>
  The handlers \<^verbatim>\<open>startSession\<close> registers on the process: output is broadcast to the
  environment, an exit is broadcast and the session record of the environment deleted.
\<close>

definition ptyData :: "nat \<Rightarrow> string \<Rightarrow> state \<Rightarrow> state" where
  "ptyData handle d st =
     (case ptyHandlers st handle of
        None \<Rightarrow> st
      | Some env \<Rightarrow> broadcastToEnvironment env (Output d) st)"

definition ptyExit :: "nat \<Rightarrow> int \<Rightarrow> state \<Rightarrow> state" where
  "ptyExit handle code st =
     (case ptyHandlers st handle of
        None \<Rightarrow> st
      | Some env \<Rightarrow>
          (let st1 = broadcastToEnvironment env (Exit code) st
           in st1\<lparr>sessions := (sessions st1)(env := None)\<rparr>))"

definition sendInput :: "externals \<Rightarrow> string \<Rightarrow> string \<Rightarrow> state \<Rightarrow> bool \<times> state" where
  "sendInput ext env input st =
     (case sessions st env of
        None \<Rightarrow> (False, st)
      | Some sess \<Rightarrow>
          let d = (if input \<noteq> [] \<and> last input = NL then input else input @ [NL])
          in (ptyWriteError ext (ptyProcess sess) d = None,
              emit [Write (ptyProcess sess) d] st))"

text \<open>\<^verbatim>\<open>content === null || content === undefined\<close>.\<close>

definition nullish :: "jsval \<Rightarrow> bool" where
  "nullish v = (v = JNull \<or> v = JUndefined)"

definition renameFile ::
  "externals \<Rightarrow> string \<Rightarrow> string \<Rightarrow> string \<Rightarrow> state \<Rightarrow> (error + bool) \<times> state" where
  "renameFile ext env oldName newName st =
     (case get ext (fileKey env oldName) st of
        Inl e \<Rightarrow> (Inl e, st)
      | Inr content \<Rightarrow>
          if nullish content then (Inl (Error ''File does not exist''), st)
          else (case set_value ext (fileKey env newName) content st of
                  Inl e \<Rightarrow> (Inl e, st)
                | Inr st1 \<Rightarrow>
                    (case redis_del ext (fileKey env oldName) st1 of
                       Inl e \<Rightarrow> (Inl e, st1)
                     | Inr st2 \<Rightarrow> (Inr True, st2))))"

definition deleteFile :: "externals \<Rightarrow> string \<Rightarrow> string \<Rightarrow> state \<Rightarrow> (error + bool) \<times> state" where
  "deleteFile ext env fname st =
     (case redis_del ext (fileKey env fname) st of
        Inl e \<Rightarrow> (Inl e, st)
      | Inr st1 \<Rightarrow> (Inr True, st1))"

text \<open>\<^verbatim>\<open>fileName.lastIndexOf(".")\<close>: the index of the last dot, \<open>-1\<close> without one.\<close>

fun lastIndexOf :: "char \<Rightarrow> string \<Rightarrow> int" where
  "lastIndexOf c [] = - 1"
| "lastIndexOf c (x # xs) =
     (if 0 \<le> lastIndexOf c xs then lastIndexOf c xs + 1 else if x = c then 0 else - 1)"

definition copy_name :: "string \<Rightarrow> string" where
  "copy_name fname =
     (let extIndex = lastIndexOf (CHR ''.'') fname
      in if extIndex > 0
         then take (nat extIndex) fname @ ''_copy'' @ drop (nat extIndex) fname
         else fname @ ''_copy'')"

definition duplicateFile ::
  "externals \<Rightarrow> string \<Rightarrow> string \<Rightarrow> state \<Rightarrow> (error + string) \<times> state" where
  "duplicateFile ext env fname st =
     (case get ext (fileKey env fname) st of
        Inl e \<Rightarrow> (Inl e, st)
      | Inr content \<Rightarrow>
          if nullish content then (Inl (Error ''File does not exist''), st)
          else (case set_value ext (fileKey env (copy_name fname)) content st of
                  Inl e \<Rightarrow> (Inl e, st)
                | Inr st1 \<Rightarrow> (Inr (copy_name fname), st1)))"

definition saveFile ::
  "externals \<Rightarrow> string \<Rightarrow> string \<Rightarrow> jsval \<Rightarrow> state \<Rightarrow> (error + bool) \<times> state" where
  "saveFile ext env fname content st =
     (case set_value ext (fileKey env fname) content st of
        Inl e \<Rightarrow> (Inl e, st)
      | Inr st1 \<Rightarrow> (Inr True, st1))"

text \<open>
  \<^verbatim>\<open>getAllFilesForEnvironment\<close>: every key the scan gives for the pattern
  \<^verbatim>\<open>`${environmentId}_*`\<close>, read and entered under the key without its prefix.
\<close>

fun read_keys ::
  "externals \<Rightarrow> string \<Rightarrow> state \<Rightarrow> (string \<times> jsval) list \<Rightarrow> string list
     \<Rightarrow> error + (string \<times> jsval) list" where
  "read_keys ext env st files [] = Inr files"
| "read_keys ext env st files (key # keys) =
     (case get ext key st of
        Inl e \<Rightarrow> Inl e
      | Inr v \<Rightarrow> read_keys ext env st (AList.update (drop (length env + 1) key) v files) keys)"

definition getAllFilesForEnvironment ::
  "externals \<Rightarrow> string \<Rightarrow> state \<Rightarrow> error + (string \<times> jsval) list" where
  "getAllFilesForEnvironment ext env st =
     (case scanError ext (env @ ''_*'') of
        Some m \<Rightarrow> Inl (Rejected m)
      | None \<Rightarrow>
          read_keys ext env st []
            (filter (globMatch ext (env @ ''_*'')) (map fst (store st))))"

section \<open>The protocol dispatcher\<close>

text \<open>
  An inbound message after \<^verbatim>\<open>JSON.parse\<close>, by its event. An identifier or name is a
  string, empty when the field is absent (both are falsy); \<open>None\<close> stands for a field
  of the wrong type: an \<^verbatim>\<open>op\<close> outside the three, a \<^verbatim>\<open>lineNumber\<close> or
  \<^verbatim>\<open>count\<close> that is not a number, \<^verbatim>\<open>fileNames\<close> that is not an array, an
  \<^verbatim>\<open>input\<close> that is not a string. Numbers are integers.
\<close>

datatype request =
    GetFiles string
  | DiffLine string string "op_kind option" "int option" line_content "int option"
  | Run "string list option" string jsval jsval
  | Input "string option"
  | Stop
  | RenameFile string string string
  | DeleteFile string string
  | DuplicateFile string string
  | CursorMove jsval jsval jsval string
  | InputChange jsval
  | Unknown string

text \<open>
  The clients a dispatcher loop sends to: every other client of \<^verbatim>\<open>wss.clients\<close> that
  is open and whose \<^verbatim>\<open>environmentId\<close> is the given one (\<open>None\<close> is undefined, and
  matches the clients that are bound to nothing).
\<close>

definition others :: "state \<Rightarrow> nat \<Rightarrow> string option \<Rightarrow> nat list" where
  "others st ws envId =
     filter (\<lambda>client. client \<noteq> ws \<and> isOpen st client \<and> environmentId st client = envId)
       (wssClients st)"

definition sendToOthers :: "nat \<Rightarrow> string option \<Rightarrow> outbound \<Rightarrow> state \<Rightarrow> state" where
  "sendToOthers ws envId msg st = emit (map (\<lambda>client. Send client msg) (others st ws envId)) st"

text \<open>The \<^verbatim>\<open>diffLine\<close> case once its fields are validated.\<close>

definition diffLine ::
  "externals \<Rightarrow> nat \<Rightarrow> string \<Rightarrow> string \<Rightarrow> op_kind \<Rightarrow> int \<Rightarrow> line_content \<Rightarrow> int option
     \<Rightarrow> state \<Rightarrow> (error + unit) \<times> state" where
  "diffLine ext ws env fname opk lnum lc cnt st =
     (case get ext (fileKey env fname) st of
        Inl e \<Rightarrow> (Inl e, st)
      | Inr v \<Rightarrow>
          (case (if truthy v then v else JStr []) of
             JStr fileContent \<Rightarrow>
               (case apply_edit fname opk lnum lc cnt (split_nl fileContent) of
                  (lines, updates) \<Rightarrow>
                    (case set_value ext (fileKey env fname) (JStr (join_nl lines)) st of
                       Inl e \<Rightarrow> (Inl e, st)
                     | Inr st1 \<Rightarrow>
                         (Inr (),
                          foldl (\<lambda>s u. sendToOthers ws (Some env) (LineUpdated u) s) st1 updates)))
           | _ \<Rightarrow> (Inl (TypeError ''fileContent.split is not a function''), st)))"

text \<open>After a file operation: the status to the sender, the file listing to the environment.\<close>

definition reply_and_list ::
  "externals \<Rightarrow> nat \<Rightarrow> string \<Rightarrow> outbound \<Rightarrow> state \<Rightarrow> (error + unit) \<times> state" where
  "reply_and_list ext ws env status st =
     (let st1 = emit [Send ws status] st
      in case getAllFilesForEnvironment ext env st1 of
           Inl e \<Rightarrow> (Inl e, st1)
         | Inr files \<Rightarrow> (Inr (), broadcastToEnvironment env (FilesMsg files) st1))"

fun handleWebSocketMessage ::
  "externals \<Rightarrow> nat \<Rightarrow> request \<Rightarrow> state \<Rightarrow> (error + unit) \<times> state" where
  "handleWebSocketMessage ext ws (GetFiles env) st =
     (if env = [] then (Inl (Error ''environmentId is required''), st)
      else
        let st1 = registerClient env ws (st\<lparr>environmentId := (environmentId st)(ws \<mapsto> env)\<rparr>)
        in case getAllFilesForEnvironment ext env st1 of
             Inl e \<Rightarrow> (Inl e, st1)
           | Inr files \<Rightarrow> (Inr (), emit [Send ws (FilesMsg files)] st1))"
| "handleWebSocketMessage ext ws (DiffLine env fname opk lnum lc cnt) st =
     (case (opk, lnum) of
        (Some k, Some n) \<Rightarrow>
          if env = [] \<or> fname = []
          then (Inl (Error ''environmentId, fileName, op, and lineNumber are required''), st)
          else diffLine ext ws env fname k n lc cnt st
      | _ \<Rightarrow> (Inl (Error ''environmentId, fileName, op, and lineNumber are required''), st))"
| "handleWebSocketMessage ext ws (Run fileNames env hash clientFiles) st =
     (case fileNames of
        None \<Rightarrow> (Inl (Error ''fileNames (array) and environmentId are required''), st)
      | Some names \<Rightarrow>
          if env = []
          then (Inl (Error ''fileNames (array) and environmentId are required''), st)
          else
            let st1 = sendToOthers ws (environmentId st ws) RunRan st;
                st2 = (if environmentId st1 ws \<noteq> Some env
                       then registerClient env ws
                              (st1\<lparr>environmentId := (environmentId st1)(ws \<mapsto> env)\<rparr>)
                       else st1)
            in case startSession ext env names hash clientFiles st2 of
                 (success, st3) \<Rightarrow> (Inr (), emit [Send ws (RunStatus success)] st3))"
| "handleWebSocketMessage ext ws (Input input) st =
     (case input of
        None \<Rightarrow> (Inl (Error ''Input data is required''), st)
      | Some text \<Rightarrow>
          (case environmentId st ws of
             None \<Rightarrow> (Inl (Error ''No active environment''), st)
           | Some env \<Rightarrow>
               (case sendInput ext env text st of
                  (ok, st1) \<Rightarrow>
                    if ok then (Inr (), st1) else (Inl (Error ''Failed to send input''), st1))))"
| "handleWebSocketMessage ext ws Stop st =
     (case environmentId st ws of
        None \<Rightarrow> (Inl (Error ''No active environment''), st)
      | Some env \<Rightarrow>
          (case stopSession ext env st of
             (success, st1) \<Rightarrow>
               (Inr (), broadcastToEnvironment env (Stopped env success None) st1)))"
| "handleWebSocketMessage ext ws (RenameFile env oldName newName) st =
     (if env = [] \<or> oldName = [] \<or> newName = []
      then (Inl (Error ''environmentId, oldName, and newName are required''), st)
      else (case renameFile ext env oldName newName st of
              (Inl e, st1) \<Rightarrow> (Inl e, st1)
            | (Inr ok, st1) \<Rightarrow> reply_and_list ext ws env (RenameFileStatus oldName newName) st1))"
| "handleWebSocketMessage ext ws (DeleteFile env fname) st =
     (if env = [] \<or> fname = []
      then (Inl (Error ''environmentId and fileName are required''), st)
      else (case deleteFile ext env fname st of
              (Inl e, st1) \<Rightarrow> (Inl e, st1)
            | (Inr ok, st1) \<Rightarrow> reply_and_list ext ws env (DeleteFileStatus fname) st1))"
| "handleWebSocketMessage ext ws (DuplicateFile env fname) st =
     (if env = [] \<or> fname = []
      then (Inl (Error ''environmentId and fileName are required''), st)
      else (case duplicateFile ext env fname st of
              (Inl e, st1) \<Rightarrow> (Inl e, st1)
            | (Inr newName, st1) \<Rightarrow>
                reply_and_list ext ws env (DuplicateFileStatus fname newName) st1))"
| "handleWebSocketMessage ext ws (CursorMove line ch file env) st =
     (case (if env \<noteq> [] then Some env else environmentId st ws) of
        None \<Rightarrow> (Inl (Error ''environmentId is required for cursorMove''), st)
      | Some envId \<Rightarrow>
          (Inr (),
           sendToOthers ws (Some envId) (MovedCursor ws line ch file)
             (st\<lparr>environmentId := (environmentId st)(ws \<mapsto> envId)\<rparr>)))"
| "handleWebSocketMessage ext ws (InputChange input) st =
     (Inr (), sendToOthers ws (environmentId st ws) (InputChanged input) st)"
| "handleWebSocketMessage ext ws (Unknown ev) st =
     (Inl (Error (''Unknown event: '' @ ev)), st)"

text \<open>The message listener: an exception of the handler becomes an error event to the sender.\<close>

definition onMessage :: "externals \<Rightarrow> nat \<Rightarrow> request \<Rightarrow> state \<Rightarrow> state" where
  "onMessage ext ws req st =
     (case handleWebSocketMessage ext ws req st of
        (Inl e, st1) \<Rightarrow> emit [Send ws (ErrorMsg ''Error processing request'' (message e))] st1
      | (Inr u, st1) \<Rightarrow> st1)"

text \<open>
  The close listener, on a socket the transport has closed and taken out of
  \<^verbatim>\<open>wss.clients\<close>: the client is unregistered from the environment it is bound to.
\<close>

definition onClose :: "externals \<Rightarrow> nat \<Rightarrow> state \<Rightarrow> state" where
  "onClose ext ws st =
     (let st0 = st\<lparr>isOpen := (isOpen st)(ws := False), wssClients := removeAll ws (wssClients st)\<rparr>
      in case environmentId st0 ws of
           None \<Rightarrow> st0
         | Some env \<Rightarrow> sendToOthers ws (Some env) (DeleteCursor ws) (unregisterClient ext env ws st0))"

text \<open>A sequence of messages of one client, handled one after the other.\<close>

fun onMessages :: "externals \<Rightarrow> nat \<Rightarrow> request list \<Rightarrow> state \<Rightarrow> state" where
  "onMessages ext ws [] st = st"
| "onMessages ext ws (r # rs) st = onMessages ext ws rs (onMessage ext ws r st)"

section \<open>Reading the model\<close>

text \<open>The clients registered for an environment, and the events a client has been sent.\<close>

definition clientsOf :: "state \<Rightarrow> string \<Rightarrow> nat set" where
  "clientsOf st env = (case clientsMap st env of None \<Rightarrow> {} | Some cs \<Rightarrow> set cs)"

definition openClients :: "state \<Rightarrow> string \<Rightarrow> nat list" where
  "openClients st env = (case clientsMap st env of None \<Rightarrow> [] | Some cs \<Rightarrow> filter (isOpen st) cs)"

fun received :: "nat \<Rightarrow> effect list \<Rightarrow> outbound list" where
  "received c [] = []"
| "received c (Send c' m # es) = (if c' = c then m # received c es else received c es)"
| "received c (e # es) = received c es"

fun line_updates :: "outbound list \<Rightarrow> update list" where
  "line_updates [] = []"
| "line_updates (LineUpdated u # ms) = u # line_updates ms"
| "line_updates (m # ms) = line_updates ms"



text \<open>
  Collaborators whose calls all succeed, for the concrete runs below: paths are joined
  with a slash, a pattern ending in a star matches the keys that start with the rest of
  it; how values are rendered and digested is left to the two arguments.
\<close>

definition quiet :: "(jsval \<Rightarrow> string) \<Rightarrow> ((string \<times> jsval) list \<Rightarrow> string) \<Rightarrow> externals" where
  "quiet render digest =
     \<lparr>redisError = (\<lambda>key. None), scanError = (\<lambda>pattern. None),
      globMatch = (\<lambda>pattern key. take (length pattern - 1) key = butlast pattern),
      renderValue = render, sha256Hex = digest, baseTmpDir = ''/tmp/nixpackpy'',
      pathJoin = (\<lambda>a b. a @ ''/'' @ b), mkdirError = (\<lambda>dir. None),
      writeFileError = (\<lambda>path content. None), spawnError = (\<lambda>cmd args. None),
      killError = (\<lambda>handle. None), ptyWriteError = (\<lambda>handle d. None)\<rparr>"

text \<open>A server with nothing stored, nobody connected and nothing running.\<close>

definition idle :: state where
  "idle =
     \<lparr>store = [], fsFiles = Map.empty, fsDirs = {}, sessions = Map.empty,
      clientsMap = Map.empty, wssClients = [], environmentId = Map.empty,
      isOpen = (\<lambda>client. False), ptyHandlers = Map.empty, trace = [], nextHandle = 0\<rparr>"

text \<open>
  A server on which environment \<open>e\<close> has a running session and one open client, and
  collaborators whose \<^verbatim>\<open>pty.spawn\<close> throws.
\<close>

definition session0 :: session where
  "session0 = \<lparr>ptyProcess = 7, sessionDir = ''/tmp/nixpackpy/e'', containerName = ''nixpackpy_e''\<rparr>"

definition running :: state where
  "running =
     idle\<lparr>sessions := [''e'' \<mapsto> session0], clientsMap := [''e'' \<mapsto> [1]],
          wssClients := [1], environmentId := [1 \<mapsto> ''e''], isOpen := (\<lambda>client. True),
          nextHandle := 8\<rparr>"

definition no_spawn :: externals where
  "no_spawn = (quiet (\<lambda>v. []) (\<lambda>files. []))\<lparr>spawnError := (\<lambda>cmd args. Some ''forkpty(3) failed.'')\<rparr>"

text \<open>
  A server on which clients 0 and 1 are open, bound to environment \<open>e\<close> and registered
  for it, and one on which client 1 is open, bound to \<open>E1\<close> and registered for it.
\<close>

definition editing :: state where
  "editing =
     idle\<lparr>clientsMap := [''e'' \<mapsto> [0, 1]], wssClients := [0, 1],
          environmentId := [0 \<mapsto> ''e'', 1 \<mapsto> ''e''], isOpen := (\<lambda>client. True)\<rparr>"

definition bound :: state where
  "bound =
     idle\<lparr>clientsMap := [''E1'' \<mapsto> [1]], wssClients := [1],
          environmentId := [1 \<mapsto> ''E1''], isOpen := (\<lambda>client. True)\<rparr>"

text \<open>
  Replaying an update stream on a copy of the content, as a client does: each update is
  applied to the lines of the content the client holds. An insert splices the line in at
  its index, a delete takes the line at its index out, a replace overwrites the line at
  its index.
\<close>

fun replay_update :: "update \<Rightarrow> string list \<Rightarrow> string list" where
  "replay_update u lines =
     (case (op u, lineContent u) of
        (Insert, Some l) \<Rightarrow> js_splice (lineNumber u) 0 [l] lines
      | (Delete, _) \<Rightarrow> js_splice (lineNumber u) 1 [] lines
      | (Replace, Some l) \<Rightarrow>
          if 0 \<le> lineNumber u \<and> lineNumber u < int (length lines)
          then lines[nat (lineNumber u) := l] else lines
      | _ \<Rightarrow> lines)"

definition replay_step :: "update \<Rightarrow> string \<Rightarrow> string" where
  "replay_step u content = join_nl (replay_update u (split_nl content))"

definition replay :: "update list \<Rightarrow> string \<Rightarrow> string" where
  "replay updates content = foldl (\<lambda>c u. replay_step u c) content updates"

text \<open>
  What the fidelity of the update stream is stated with: no line holds a newline; the
  content the store holds for a key (empty when it holds none); the store answers for
  the key and hands its content back as it is, because the content is not JSON; an edit
  of the given file that passes validation, with a line number that is not negative and
  lines without a newline; and a sequence of messages each of which finds the content
  handed back as it is.
\<close>

definition clean :: "string list \<Rightarrow> bool" where
  "clean ls = (\<forall>l \<in> set ls. NL \<notin> set l)"

definition content_of :: "state \<Rightarrow> string \<Rightarrow> string" where
  "content_of st key = (case map_of (store st) key of None \<Rightarrow> [] | Some c \<Rightarrow> c)"

definition reads_verbatim :: "externals \<Rightarrow> state \<Rightarrow> string \<Rightarrow> bool" where
  "reads_verbatim ext st key =
     (redisError ext key = None \<and> JSON_parse (content_of st key) = None)"

fun valid_edit :: "string \<Rightarrow> string \<Rightarrow> request \<Rightarrow> bool" where
  "valid_edit env fname (DiffLine e f (Some k) (Some n) lc cnt) =
     (e = env \<and> f = fname \<and> env \<noteq> [] \<and> fname \<noteq> [] \<and> 0 \<le> n
      \<and> list_all (\<lambda>l. NL \<notin> set l) (to_array lc))"
| "valid_edit env fname r = False"

fun verbatim_run :: "externals \<Rightarrow> nat \<Rightarrow> string \<Rightarrow> request list \<Rightarrow> state \<Rightarrow> bool" where
  "verbatim_run ext ws key [] st = True"
| "verbatim_run ext ws key (r # rs) st =
     (reads_verbatim ext st key \<and> verbatim_run ext ws key rs (onMessage ext ws r st))"

section \<open>Properties of the edit engine\<close>

lemma js_splice_insert:
  "0 \<le> k \<Longrightarrow> js_splice k 0 items xs = take (nat k) xs @ items @ drop (nat k) xs"
  by (auto simp: js_splice_def Let_def min_def max_def)




text \<open>A replace that starts at or past the end of the file is an insert, and reported as one.\<close>

lemma replace_loop_past_end:
  "int (length xs) \<le> lnum + int i \<Longrightarrow>
     replace_loop fname lnum i vs (xs, ups) = (xs @ vs, ups @ insert_updates fname lnum i vs)"
proof (induction vs arbitrary: xs ups i)
  case Nil
  then show ?case by simp
next
  case (Cons v vs)
  have s: "js_splice (lnum + int i) 0 [v] xs = xs @ [v]"
    using Cons.prems by (simp add: js_splice_def Let_def min_def)
  show ?case
    using Cons.prems Cons.IH [of "xs @ [v]" "Suc i"] by (simp add: s)
qed

lemma replace_past_end_is_insert:
  assumes "int (length lines) \<le> lnum"
  shows "apply_edit fname Replace lnum lc cnt lines = apply_edit fname Insert lnum lc cnt lines"
    and "apply_edit fname Replace lnum lc cnt lines =
           (lines @ to_array lc, insert_updates fname lnum 0 (to_array lc))"
proof -
  have "js_splice lnum 0 (to_array lc) lines = lines @ to_array lc"
    using assms by (simp add: js_splice_def Let_def min_def)
  then show "apply_edit fname Replace lnum lc cnt lines = apply_edit fname Insert lnum lc cnt lines"
    and "apply_edit fname Replace lnum lc cnt lines =
           (lines @ to_array lc, insert_updates fname lnum 0 (to_array lc))"
    using assms replace_loop_past_end [of lines lnum 0 fname "to_array lc" "[]"] by simp_all
qed



subsection \<open>Replaying the updates of one edit\<close>

text \<open>Splitting and joining are inverse on lines without a newline; each branch of the handler
  gives updates that replay to its new content.\<close>

lemma split_nl_nonempty: "split_nl c \<noteq> []"
  by (induction c) (auto split: list.splits)

lemma split_nl_free: "l \<in> set (split_nl c) \<Longrightarrow> NL \<notin> set l"
proof (induction c arbitrary: l)
  case Nil
  then show ?case by simp
next
  case (Cons a c)
  then show ?case
    by (cases "split_nl c") (auto split: if_splits)
qed

lemma join_split: "join_nl (split_nl c) = c"
proof (induction c)
  case Nil
  then show ?case by simp
next
  case (Cons a c)
  show ?case
  proof (cases "split_nl c")
    case Nil
    then show ?thesis using split_nl_nonempty by blast
  next
    case (Cons l ls)
    then show ?thesis using Cons.IH by (cases ls) auto
  qed
qed

lemma split_append_free: "NL \<notin> set l \<Longrightarrow> split_nl (l @ NL # c) = l # split_nl c"
  by (induction l) auto

lemma split_free: "NL \<notin> set l \<Longrightarrow> split_nl l = [l]"
  by (induction l) auto

lemma split_join:
  "ls \<noteq> [] \<Longrightarrow> (\<forall>l \<in> set ls. NL \<notin> set l) \<Longrightarrow> split_nl (join_nl ls) = ls"
proof (induction ls rule: join_nl.induct)
  case 1
  then show ?case by simp
next
  case (2 l)
  then show ?case by (simp add: split_free)
next
  case (3 l m ls)
  then show ?case by (simp add: split_append_free)
qed

lemma replay_step_join:
  "ls \<noteq> [] \<Longrightarrow> clean ls \<Longrightarrow> replay_step u (join_nl ls) = join_nl (replay_update u ls)"
  by (simp add: replay_step_def split_join clean_def)

lemma clean_splice: "clean xs \<Longrightarrow> clean items \<Longrightarrow> clean (js_splice s d items xs)"
  by (auto simp: clean_def js_splice_def Let_def dest: in_set_takeD in_set_dropD)

lemma clean_update: "clean xs \<Longrightarrow> NL \<notin> set v \<Longrightarrow> clean (xs[i := v])"
  by (auto simp: clean_def dest!: set_update_subset_insert [THEN subsetD])

lemma splice_insert_nonempty: "js_splice s 0 [v] xs \<noteq> []"
  by (simp add: js_splice_def Let_def)

lemma splice_insert_cons:
  "0 \<le> m \<Longrightarrow> js_splice (m + 1) 0 vs (js_splice m 0 [v] xs) = js_splice m 0 (v # vs) xs"
  by (auto simp: js_splice_insert nat_add_distrib min_def)

lemma insert_replay:
  "0 \<le> lnum \<Longrightarrow> xs \<noteq> [] \<Longrightarrow> clean xs \<Longrightarrow> clean vs \<Longrightarrow>
     foldl (\<lambda>c u. replay_step u c) (join_nl xs) (insert_updates fname lnum i vs)
       = join_nl (js_splice (lnum + int i) 0 vs xs)"
proof (induction vs arbitrary: xs i)
  case Nil
  then show ?case by (simp add: js_splice_insert)
next
  case (Cons v vs)
  let ?x1 = "js_splice (lnum + int i) 0 [v] xs"
  have c1: "clean ?x1" using Cons.prems by (intro clean_splice) (simp_all add: clean_def)
  have "foldl (\<lambda>c u. replay_step u c) (join_nl xs) (insert_updates fname lnum i (v # vs))
      = foldl (\<lambda>c u. replay_step u c) (join_nl ?x1) (insert_updates fname lnum (Suc i) vs)"
    using Cons.prems by (simp add: replay_step_join)
  also have "\<dots> = join_nl (js_splice (lnum + int (Suc i)) 0 vs ?x1)"
    using Cons.prems c1 by (intro Cons.IH) (simp_all add: splice_insert_nonempty clean_def)
  also have "\<dots> = join_nl (js_splice (lnum + int i) 0 (v # vs) xs)"
    using Cons.prems(1) splice_insert_cons [of "lnum + int i" vs v xs]
    by (simp add: add.commute add.left_commute)
  finally show ?case .
qed

lemma splice_delete_as_take_drop:
  "0 \<le> lnum \<Longrightarrow> 0 \<le> k \<Longrightarrow> js_splice lnum k [] xs = take (nat lnum) xs @ drop (nat lnum + nat k) xs"
  by (auto simp: js_splice_def Let_def min_def max_def nat_add_distrib)

lemma take_drop_compose:
  "take n (take n xs @ drop (Suc n) xs) @ drop (n + k) (take n xs @ drop (Suc n) xs)
     = take n xs @ drop (n + Suc k) xs"
proof (cases "n \<le> length xs")
  case True
  then show ?thesis by (simp add: min_def add.commute)
next
  case False
  then show ?thesis by simp
qed

lemma splice_delete_compose:
  assumes "0 \<le> lnum" and "0 \<le> k"
  shows "js_splice lnum k [] (js_splice lnum 1 [] xs) = js_splice lnum (k + 1) [] xs"
proof -
  have "nat (k + 1) = Suc (nat k)" using assms(2) by simp
  then show ?thesis
    using assms take_drop_compose [of "nat lnum" xs "nat k"]
    by (simp add: splice_delete_as_take_drop)
qed

lemma splice_delete_empty:
  assumes "0 \<le> lnum" and "0 \<le> k" and "xs \<noteq> []" and "js_splice lnum 1 [] xs = []"
  shows "join_nl (js_splice lnum k [] [[]]) = [] \<and> js_splice lnum (k + 1) [] xs = []"
proof -
  have "js_splice lnum 1 [] xs = take (nat lnum) xs @ drop (nat lnum + nat 1) xs"
    using assms(1) by (intro splice_delete_as_take_drop) simp_all
  then have t: "take (nat lnum) xs = []" and d: "drop (nat lnum + 1) xs = []"
    using assms(4) by simp_all
  have n0: "nat lnum = 0" using t assms(3) by simp
  have len: "length xs \<le> 1" using d n0 by simp
  have dk: "drop (nat (k + 1)) xs = []" using len assms(2) by simp
  have a: "join_nl (js_splice lnum k [] [[]]) = []"
    unfolding splice_delete_as_take_drop [OF assms(1,2)] using n0 by (cases "nat k") auto
  have "0 \<le> k + 1" using assms(2) by simp
  then have b: "js_splice lnum (k + 1) [] xs = []"
    unfolding splice_delete_as_take_drop [OF assms(1) \<open>0 \<le> k + 1\<close>] using n0 dk t by simp
  show ?thesis using a b by simp
qed

lemma delete_replay:
  assumes "0 \<le> lnum"
  shows "foldl (\<lambda>c u. replay_step u c) c
           (replicate k \<lparr>fileName = fname, op = Delete, lineNumber = lnum, lineContent = None\<rparr>)
         = join_nl (js_splice lnum (int k) [] (split_nl c))"
proof (induction k arbitrary: c)
  case 0
  then show ?case by (simp add: js_splice_def Let_def join_split min_def)
next
  case (Suc k)
  let ?d = "\<lparr>fileName = fname, op = Delete, lineNumber = lnum, lineContent = None\<rparr>"
  let ?l1 = "js_splice lnum 1 [] (split_nl c)"
  have s: "replay_step ?d c = join_nl ?l1" by (simp add: replay_step_def)
  have "foldl (\<lambda>c u. replay_step u c) c (replicate (Suc k) ?d)
      = join_nl (js_splice lnum (int k) [] (split_nl (join_nl ?l1)))"
    using Suc.IH [of "replay_step ?d c"] s by simp
  also have "\<dots> = join_nl (js_splice lnum (int (Suc k)) [] (split_nl c))"
  proof (cases "?l1 = []")
    case True
    then show ?thesis
      using splice_delete_empty [OF assms, of "int k" "split_nl c"] split_nl_nonempty [of c]
      by (simp add: add.commute)
  next
    case False
    have "clean ?l1"
      by (intro clean_splice) (auto simp: clean_def dest: split_nl_free)
    then have "split_nl (join_nl ?l1) = ?l1"
      using False by (simp add: split_join clean_def)
    then show ?thesis
      using splice_delete_compose [OF assms, of "int k" "split_nl c"] by (simp add: add.commute)
  qed
  finally show ?case .
qed

lemma replace_loop_updates:
  "replace_loop fname lnum i vs (xs, ups0) =
     (fst (replace_loop fname lnum i vs (xs, [])), ups0 @ snd (replace_loop fname lnum i vs (xs, [])))"
proof (induction vs arbitrary: i xs ups0)
  case Nil
  then show ?case by simp
next
  case (Cons v vs)
  show ?case
    using Cons.IH [of "Suc i" _ "ups0 @ [_]"] Cons.IH [of "Suc i" _ "[_]"]
    by (simp add: prod_eq_iff)
qed

lemma replace_replay:
  "0 \<le> lnum \<Longrightarrow> xs \<noteq> [] \<Longrightarrow> clean xs \<Longrightarrow> clean vs \<Longrightarrow>
     foldl (\<lambda>c u. replay_step u c) (join_nl xs) (snd (replace_loop fname lnum i vs (xs, [])))
       = join_nl (fst (replace_loop fname lnum i vs (xs, [])))"
proof (induction vs arbitrary: xs i)
  case Nil
  then show ?case by simp
next
  case (Cons v vs)
  have v: "NL \<notin> set v" and vs: "clean vs" using Cons.prems(4) by (simp_all add: clean_def)
  show ?case
  proof (cases "lnum + int i < int (length xs)")
    case True
    let ?x1 = "xs[nat (lnum + int i) := v]"
    let ?u = "\<lparr>fileName = fname, op = Replace, lineNumber = lnum + int i, lineContent = Some v\<rparr>"
    have x1: "?x1 \<noteq> []" "clean ?x1" using Cons.prems v by (simp_all add: clean_update)
    have st: "replay_step ?u (join_nl xs) = join_nl ?x1"
      using Cons.prems True by (simp add: replay_step_join)
    have "replace_loop fname lnum i (v # vs) (xs, []) =
            (fst (replace_loop fname lnum (Suc i) vs (?x1, [])),
             ?u # snd (replace_loop fname lnum (Suc i) vs (?x1, [])))"
      using True Cons.prems(1) replace_loop_updates [of fname lnum "Suc i" vs ?x1 "[?u]"]
      by (simp add: set_index_def)
    then show ?thesis
      using Cons.IH [OF Cons.prems(1) x1 vs, of "Suc i"] st by simp
  next
    case False
    let ?x1 = "js_splice (lnum + int i) 0 [v] xs"
    let ?u = "\<lparr>fileName = fname, op = Insert, lineNumber = lnum + int i, lineContent = Some v\<rparr>"
    have "clean [v]" using v by (simp add: clean_def)
    then have x1: "?x1 \<noteq> []" "clean ?x1"
      using Cons.prems(3) by (simp_all add: splice_insert_nonempty clean_splice)
    have st: "replay_step ?u (join_nl xs) = join_nl ?x1"
      using Cons.prems by (simp add: replay_step_join)
    have "replace_loop fname lnum i (v # vs) (xs, []) =
            (fst (replace_loop fname lnum (Suc i) vs (?x1, [])),
             ?u # snd (replace_loop fname lnum (Suc i) vs (?x1, [])))"
      using False replace_loop_updates [of fname lnum "Suc i" vs ?x1 "[?u]"]
      by simp
    then show ?thesis
      using Cons.IH [OF Cons.prems(1) x1 vs, of "Suc i"] st by simp
  qed
qed

lemma apply_edit_replay:
  assumes "0 \<le> lnum" and "clean (to_array lc)"
  shows "replay (snd (apply_edit fname opk lnum lc cnt (split_nl c))) c
           = join_nl (fst (apply_edit fname opk lnum lc cnt (split_nl c)))"
proof (cases opk)
  case Insert
  then show ?thesis
    using insert_replay [OF assms(1) split_nl_nonempty _ assms(2), of c fname 0]
    by (simp add: replay_def join_split clean_def split_nl_free)
next
  case Delete
  have "0 < delete_count cnt" by (simp add: delete_count_def split: option.splits)
  then show ?thesis
    using Delete delete_replay [OF assms(1), of c "nat (delete_count cnt)" fname]
    by (simp add: replay_def)
next
  case Replace
  then show ?thesis
    using replace_replay [OF assms(1) split_nl_nonempty _ assms(2), of c fname 0]
    by (simp add: replay_def join_split clean_def split_nl_free)
qed

section \<open>Properties of the session manager and the dispatcher\<close>

text \<open>The definitions a concrete run is evaluated with.\<close>

lemmas json_eval = JSON_parse_def is_ws_def is_digit_def scan_number_def scan_unsigned_def
  scan_int_def scan_frac_def scan_exp_def scan_exp_digits_def decimal_value_def digits_val_def
  digit_val_def cons_token_def next_token_def after_prefix_def unescape_def

text \<open>What the parser gives on some inputs, and what is truthy.\<close>

lemma JSON_parse_examples:
  "JSON_parse ''0'' = Some (JNum 0)"
  "JSON_parse ''-12.50e1'' = Some (JNum (- 125))"
  "JSON_parse ''null'' = Some JNull"
  "JSON_parse '' true '' = Some (JBool True)"
  "JSON_parse [CHR 0x22, CHR ''x'', CHR 0x22] = Some (JStr ''x'')"
  "JSON_parse (''{'' @ [CHR 0x22, CHR ''a'', CHR 0x22] @ '': [1, {}, []]}'')
     = Some (JObj [(''a'', JArr [JNum 1, JObj [], JArr []])])"
  "JSON_parse ''print(1)'' = None"
  "JSON_parse ''01'' = None"
  "JSON_parse ''[1,]'' = None"
  "JSON_parse '''' = None"
  by (simp_all add: json_eval hex4_def unicode_escape_def)

lemma truthy_examples:
  "\<not> truthy (JNum 0)" "truthy (JNum 1)" "\<not> truthy (JStr [])" "truthy (JArr [])"
  by simp_all

lemmas fixture_eval = quiet_def idle_def running_def session0_def no_spawn_def

lemmas manager_eval = startSession_def startSession_try_def restart_existing_def
  buildFileObject_def writeFilesToDir_def get_def redis_get_def set_value_def redis_del_def
  fileKey_def file_content_def mainFile_def broadcastToEnvironment_def emit_def
  stopSession_def

subsection \<open>Stopping a session\<close>


lemma stopSession_sessions: "sessions (snd (stopSession ext env st)) = (sessions st)(env := None)"
  by (auto simp: stopSession_def emit_def Let_def split: option.splits)

lemma stopSession_frame:
  "clientsMap (snd (stopSession ext env st)) = clientsMap st"
  "isOpen (snd (stopSession ext env st)) = isOpen st"
  "wssClients (snd (stopSession ext env st)) = wssClients st"
  "environmentId (snd (stopSession ext env st)) = environmentId st"
  "store (snd (stopSession ext env st)) = store st"
  by (simp_all add: stopSession_def emit_def Let_def split: option.splits)

lemma broadcast_frame:
  "clientsMap (broadcastToEnvironment env m st) = clientsMap st"
  "isOpen (broadcastToEnvironment env m st) = isOpen st"
  "wssClients (broadcastToEnvironment env m st) = wssClients st"
  "environmentId (broadcastToEnvironment env m st) = environmentId st"
  "store (broadcastToEnvironment env m st) = store st"
  "sessions (broadcastToEnvironment env m st) = sessions st"
  by (simp_all add: broadcastToEnvironment_def emit_def split: option.splits)

lemma broadcast_trace:
  "trace (broadcastToEnvironment env m st) = trace st @ map (\<lambda>c. Send c m) (openClients st env)"
  by (simp add: broadcastToEnvironment_def openClients_def emit_def split: option.splits)

lemma openClients_cong:
  "clientsMap st' = clientsMap st \<Longrightarrow> isOpen st' = isOpen st \<Longrightarrow> openClients st' env = openClients st env"
  by (simp add: openClients_def split: option.splits)




subsection \<open>Starting a session\<close>

text \<open>What the \<^verbatim>\<open>try\<close> block and the head of \<^verbatim>\<open>startSession\<close> leave as it is.\<close>

lemma write_entries_frame:
  "clientsMap (snd (write_entries ext dir es st)) = clientsMap st
 \<and> isOpen (snd (write_entries ext dir es st)) = isOpen st
 \<and> sessions (snd (write_entries ext dir es st)) = sessions st
 \<and> trace (snd (write_entries ext dir es st)) = trace st
 \<and> nextHandle (snd (write_entries ext dir es st)) = nextHandle st
 \<and> wssClients (snd (write_entries ext dir es st)) = wssClients st
 \<and> environmentId (snd (write_entries ext dir es st)) = environmentId st
 \<and> store (snd (write_entries ext dir es st)) = store st"
  by (induction ext dir es st rule: write_entries.induct) (auto split: option.splits)

lemma writeFilesToDir_frame:
  "clientsMap (snd (writeFilesToDir ext env files st)) = clientsMap st
 \<and> isOpen (snd (writeFilesToDir ext env files st)) = isOpen st
 \<and> sessions (snd (writeFilesToDir ext env files st)) = sessions st
 \<and> trace (snd (writeFilesToDir ext env files st)) = trace st
 \<and> nextHandle (snd (writeFilesToDir ext env files st)) = nextHandle st
 \<and> wssClients (snd (writeFilesToDir ext env files st)) = wssClients st
 \<and> environmentId (snd (writeFilesToDir ext env files st)) = environmentId st
 \<and> store (snd (writeFilesToDir ext env files st)) = store st"
proof -
  let ?dir = "pathJoin ext (baseTmpDir ext) env"
  let ?st0 = "st\<lparr>fsDirs := insert ?dir (fsDirs st)\<rparr>"
  show ?thesis
    using write_entries_frame [of ext ?dir files ?st0]
    by (auto simp: writeFilesToDir_def Let_def split: option.splits prod.splits sum.splits)
qed

lemma writeFilesToDir_frameD:
  "writeFilesToDir ext env files st = (r, st') \<Longrightarrow>
     clientsMap st' = clientsMap st \<and> isOpen st' = isOpen st \<and> sessions st' = sessions st
   \<and> trace st' = trace st \<and> nextHandle st' = nextHandle st \<and> wssClients st' = wssClients st
   \<and> environmentId st' = environmentId st \<and> store st' = store st"
  using writeFilesToDir_frame [of ext env files st] by simp

lemma startSession_try_frame:
  "clientsMap (snd (startSession_try ext env fileNames hash clientFiles st)) = clientsMap st
 \<and> isOpen (snd (startSession_try ext env fileNames hash clientFiles st)) = isOpen st
 \<and> wssClients (snd (startSession_try ext env fileNames hash clientFiles st)) = wssClients st
 \<and> environmentId (snd (startSession_try ext env fileNames hash clientFiles st)) = environmentId st
 \<and> store (snd (startSession_try ext env fileNames hash clientFiles st)) = store st"
  unfolding startSession_try_def Let_def
  by (auto simp: emit_def split: option.splits prod.splits sum.splits
           dest!: writeFilesToDir_frameD)

lemma startSession_try_error_sessions:
  "startSession_try ext env fileNames hash clientFiles st = (Inl e, st2) \<Longrightarrow> sessions st2 = sessions st"
  unfolding startSession_try_def Let_def
  by (auto simp: emit_def split: option.splits prod.splits sum.splits
           dest!: writeFilesToDir_frameD)


lemma restart_existing_frame:
  "clientsMap (restart_existing ext env st) = clientsMap st"
  "isOpen (restart_existing ext env st) = isOpen st"
  "wssClients (restart_existing ext env st) = wssClients st"
  "environmentId (restart_existing ext env st) = environmentId st"
  "store (restart_existing ext env st) = store st"
  by (simp_all add: restart_existing_def broadcast_frame stopSession_frame)

lemma restart_existing_sessions: "sessions (restart_existing ext env st) env = None"
  by (auto simp: restart_existing_def broadcast_frame stopSession_sessions)

text \<open>
  C7. If the \<^verbatim>\<open>try\<close> block of \<^verbatim>\<open>startSession\<close> throws \<open>e\<close>, leaving the state
  \<open>st2\<close>, then \<^verbatim>\<open>startSession\<close> returns false, every open client of the
  environment is sent the output line made from the message of \<open>e\<close> and then every one
  the exit with code 1, and the environment has no session record.
\<close>

theorem startSession_exception:
  assumes "startSession_try ext env fileNames hash clientFiles (restart_existing ext env st)
             = (Inl e, st2)"
  shows "fst (startSession ext env fileNames hash clientFiles st) = False
       \<and> trace (snd (startSession ext env fileNames hash clientFiles st)) =
           trace st2
             @ map (\<lambda>c. Send c (Output (''Error starting session: '' @ message e)))
                 (openClients st env)
             @ map (\<lambda>c. Send c (Exit 1)) (openClients st env)
       \<and> sessions (snd (startSession ext env fileNames hash clientFiles st)) env = None"
proof -
  let ?st1 = "restart_existing ext env st"
  have frame: "clientsMap st2 = clientsMap st" "isOpen st2 = isOpen st"
    using startSession_try_frame [of ext env fileNames hash clientFiles ?st1] assms
    by (simp_all add: restart_existing_frame)
  have sess: "sessions st2 env = None"
    using startSession_try_error_sessions [OF assms] by (simp add: restart_existing_sessions)
  have oc: "openClients st2 env = openClients st env"
    using frame by (rule openClients_cong)
  have oc2: "openClients (broadcastToEnvironment env m st2) env = openClients st env" for m
    using frame by (intro openClients_cong) (simp_all add: broadcast_frame)
  show ?thesis
    using assms sess oc oc2
    by (simp add: startSession_def broadcast_trace broadcast_frame)
qed

theorem startSession_exception_witness:
  "fst (startSession no_spawn ''e'' [''main.py''] JUndefined JUndefined running) = False
 \<and> trace (snd (startSession no_spawn ''e'' [''main.py''] JUndefined JUndefined running)) =
       [Spawn ''docker'' [JStr ''kill'', JStr ''nixpackpy_e''] None,
        Send 1 (Stopped ''e'' True (Some ''restarted'')),
        Spawn ''docker'' (dockerArgs ''nixpackpy_e'' ''/tmp/nixpackpy/e'' (JStr ''main.py'')) None,
        Send 1 (Output ''Error starting session: forkpty(3) failed.''),
        Send 1 (Exit 1)]
 \<and> sessions (snd (startSession no_spawn ''e'' [''main.py''] JUndefined JUndefined running)) ''e''
       = None"
proof -
  let ?x = "startSession_try no_spawn ''e'' [''main.py''] JUndefined JUndefined
              (restart_existing no_spawn ''e'' running)"
  have x: "?x = (Inl (Rejected ''forkpty(3) failed.''),
                 running\<lparr>sessions := Map.empty,
                   fsFiles := [''/tmp/nixpackpy/e/main.py'' \<mapsto> JStr default_main],
                   fsDirs := {''/tmp/nixpackpy/e''},
                   trace := [Spawn ''docker'' [JStr ''kill'', JStr ''nixpackpy_e''] None,
                        Send 1 (Stopped ''e'' True (Some ''restarted'')),
                        Spawn ''docker'' (dockerArgs ''nixpackpy_e'' ''/tmp/nixpackpy/e'' (JStr ''main.py'')) None]\<rparr>)"
    by (simp add: fixture_eval startSession_try_def restart_existing_def stopSession_def
        broadcastToEnvironment_def emit_def buildFileObject_def get_def redis_get_def
        fileKey_def file_content_def writeFilesToDir_def mainFile_def Let_def)
  show ?thesis
    using startSession_exception [OF x]
    by (simp add: openClients_def fixture_eval)
qed



text \<open>
  C1 fails on the code. What \<^verbatim>\<open>startSession\<close> does never depends on the hash or
  the files the client sent; with \<open>print(1)\<close> stored for \<^verbatim>\<open>main.py\<close> and
  \<open>print(2)\<close> sent by the client, the session directory gets \<open>print(1)\<close> whatever the
  hash.
\<close>

theorem startSession_ignores_clientFiles:
  "startSession ext env fileNames hash clientFiles st =
     startSession ext env fileNames hash' clientFiles' st
 \<and> fsFiles (snd (startSession (quiet render digest) ''e'' [''main.py''] hash
       (JObj [(''main.py'', JStr ''print(2)'')])
       (idle\<lparr>store := [(''e_main.py'', ''print(1)'')]\<rparr>)))
     ''/tmp/nixpackpy/e/main.py'' = Some (JStr ''print(1)'')"
proof -
  have "startSession ext env fileNames hash clientFiles st =
     startSession ext env fileNames hash' clientFiles' st"
    unfolding startSession_def startSession_try_def Let_def by (rule refl)
  moreover have "fsFiles (snd (startSession (quiet render digest) ''e'' [''main.py''] hash
       (JObj [(''main.py'', JStr ''print(2)'')])
       (idle\<lparr>store := [(''e_main.py'', ''print(1)'')]\<rparr>)))
     ''/tmp/nixpackpy/e/main.py'' = Some (JStr ''print(1)'')"
    by (simp add: manager_eval json_eval quiet_def idle_def Let_def)
  ultimately show ?thesis by simp
qed

subsection \<open>Rebinding a client\<close>

text \<open>No handler takes a client out of a client set.\<close>

lemma startSession_clientsMap:
  "clientsMap (snd (startSession ext env fileNames hash clientFiles st)) = clientsMap st"
  using startSession_try_frame [of ext env fileNames hash clientFiles "restart_existing ext env st"]
  by (auto simp: startSession_def broadcast_frame restart_existing_frame
           split: prod.splits sum.splits)

lemma sendToOthers_clientsMap: "clientsMap (sendToOthers ws e m st) = clientsMap st"
  by (simp add: sendToOthers_def emit_def)

lemma foldl_sendToOthers_clientsMap:
  "clientsMap (foldl (\<lambda>s u. sendToOthers ws e (f u) s) st us) = clientsMap st"
  by (induction us arbitrary: st) (simp_all add: sendToOthers_clientsMap)

lemma set_value_clientsMap: "set_value ext key v st = Inr st' \<Longrightarrow> clientsMap st' = clientsMap st"
  by (auto simp: set_value_def Let_def split: option.splits)

lemma redis_del_clientsMap: "redis_del ext key st = Inr st' \<Longrightarrow> clientsMap st' = clientsMap st"
  by (auto simp: redis_del_def split: option.splits)

lemma diffLine_clientsMap:
  "clientsMap (snd (diffLine ext ws env fname opk lnum lc cnt st)) = clientsMap st"
  unfolding diffLine_def
  by (auto simp: foldl_sendToOthers_clientsMap
           split: sum.splits jsval.splits prod.splits if_splits dest!: set_value_clientsMap)

lemma renameFile_clientsMap:
  "clientsMap (snd (renameFile ext env oldName newName st)) = clientsMap st"
  unfolding renameFile_def
  by (auto split: sum.splits dest!: set_value_clientsMap redis_del_clientsMap)

lemma deleteFile_clientsMap: "clientsMap (snd (deleteFile ext env fname st)) = clientsMap st"
  unfolding deleteFile_def by (auto split: sum.splits dest!: redis_del_clientsMap)

lemma duplicateFile_clientsMap: "clientsMap (snd (duplicateFile ext env fname st)) = clientsMap st"
  unfolding duplicateFile_def by (auto split: sum.splits dest!: set_value_clientsMap)

lemma reply_and_list_clientsMap:
  "clientsMap (snd (reply_and_list ext ws env status st)) = clientsMap st"
  unfolding reply_and_list_def Let_def
  by (auto simp: emit_def broadcast_frame split: sum.splits)

lemma sendInput_clientsMap: "clientsMap (snd (sendInput ext env input st)) = clientsMap st"
  by (simp add: sendInput_def emit_def Let_def split: option.splits)

lemma registerClient_clientsOf:
  "clientsOf (registerClient env ws st) e = (if e = env then insert ws (clientsOf st e) else clientsOf st e)"
  by (auto simp: registerClient_def clientsOf_def set_add_def Let_def split: option.splits)

lemma clientsOf_cong: "clientsMap st' = clientsMap st \<Longrightarrow> clientsOf st' e = clientsOf st e"
  by (simp add: clientsOf_def)

lemma clientsOf_updates:
  "clientsOf (st\<lparr>environmentId := b\<rparr>) e = clientsOf st e"
  "clientsOf (emit es st) e = clientsOf st e"
  "clientsOf (sendToOthers ws envId m st) e = clientsOf st e"
  "clientsOf (broadcastToEnvironment env m st) e = clientsOf st e"
  by (simp_all add: clientsOf_def emit_def sendToOthers_def broadcast_frame)

lemma keeps:
  "clientsOf (snd (startSession ext env fileNames hash clientFiles st)) e = clientsOf st e"
  "clientsOf (snd (sendInput ext env input st)) e = clientsOf st e"
  "clientsOf (snd (stopSession ext env st)) e = clientsOf st e"
  "clientsOf (snd (renameFile ext env oldName newName st)) e = clientsOf st e"
  "clientsOf (snd (deleteFile ext env fname st)) e = clientsOf st e"
  "clientsOf (snd (duplicateFile ext env fname st)) e = clientsOf st e"
  "clientsOf (snd (reply_and_list ext ws env status st)) e = clientsOf st e"
  "clientsOf (snd (diffLine ext ws env fname opk lnum lc cnt st)) e = clientsOf st e"
  using clientsOf_cong [OF startSession_clientsMap, of ext env fileNames hash clientFiles st e]
    clientsOf_cong [OF sendInput_clientsMap, of ext env input st e]
    clientsOf_cong [OF stopSession_frame(1), of ext env st e]
    clientsOf_cong [OF renameFile_clientsMap, of ext env oldName newName st e]
    clientsOf_cong [OF deleteFile_clientsMap, of ext env fname st e]
    clientsOf_cong [OF duplicateFile_clientsMap, of ext env fname st e]
    clientsOf_cong [OF reply_and_list_clientsMap, of ext ws env status st e]
    clientsOf_cong [OF diffLine_clientsMap, of ext ws env fname opk lnum lc cnt st e]
  by simp_all

lemma handle_keeps_registrations:
  "clientsOf st e \<subseteq> clientsOf (snd (handleWebSocketMessage ext ws req st)) e"
proof (cases req)
  case (GetFiles env)
  then show ?thesis
    by (auto simp: Let_def registerClient_clientsOf clientsOf_updates split: sum.splits)
next
  case (DiffLine env fname opk lnum lc cnt)
  then show ?thesis
    by (simp add: keeps split: option.splits)
next
  case (Run fileNames env hash clientFiles)
  then show ?thesis
    by (auto simp: split_beta Let_def registerClient_clientsOf clientsOf_updates keeps
        split: option.splits)
next
  case (Input input)
  then show ?thesis
    by (simp add: split_beta keeps split: option.splits)
next
  case Stop
  then show ?thesis
    by (simp add: split_beta clientsOf_updates keeps split: option.splits)
next
  case (RenameFile env oldName newName)
  then show ?thesis
    by (simp add: split_beta keeps split: sum.splits)
next
  case (DeleteFile env fname)
  then show ?thesis
    by (simp add: split_beta keeps split: sum.splits)
next
  case (DuplicateFile env fname)
  then show ?thesis
    by (simp add: split_beta keeps split: sum.splits)
next
  case (CursorMove line ch fl env)
  then show ?thesis
    by (simp add: clientsOf_updates split: option.splits)
next
  case (InputChange input)
  then show ?thesis by (simp add: clientsOf_updates)
next
  case (Unknown ev)
  then show ?thesis by simp
qed

lemma environmentId_updates:
  "environmentId (registerClient env ws st) = environmentId st"
  "environmentId (emit es st) = environmentId st"
  "environmentId (sendToOthers ws envId m st) = environmentId st"
  by (simp_all add: registerClient_def emit_def sendToOthers_def Let_def)

text \<open>
  C8, as amended. A client registered for \<open>E1\<close> and bound to it names another
  environment \<open>E2\<close>: after \<^verbatim>\<open>getFiles\<close> or \<^verbatim>\<open>run\<close> it is bound to \<open>E2\<close>,
  registered for \<open>E2\<close> and still registered for \<open>E1\<close>; after \<^verbatim>\<open>cursorMove\<close> it
  is bound to \<open>E2\<close> and the client sets are as before; and no message at all takes it
  out of the client set of \<open>E1\<close>.
\<close>

theorem rebinding_keeps_old_registration:
  assumes "ws \<in> clientsOf st E1" and "environmentId st ws = Some E1"
    and "E2 \<noteq> []" and "E2 \<noteq> E1"
  shows "(let st' = snd (handleWebSocketMessage ext ws (GetFiles E2) st)
          in environmentId st' ws = Some E2 \<and> ws \<in> clientsOf st' E2 \<and> ws \<in> clientsOf st' E1)
       \<and> (let st' = snd (handleWebSocketMessage ext ws (Run (Some names) E2 hash clientFiles) st)
          in environmentId st' ws = Some E2 \<and> ws \<in> clientsOf st' E2 \<and> ws \<in> clientsOf st' E1)
       \<and> (let st' = snd (handleWebSocketMessage ext ws (CursorMove line ch fl E2) st)
          in environmentId st' ws = Some E2 \<and> clientsMap st' = clientsMap st)
       \<and> (\<forall>req. ws \<in> clientsOf (snd (handleWebSocketMessage ext ws req st)) E1)"
proof -
  have g: "let st' = snd (handleWebSocketMessage ext ws (GetFiles E2) st)
          in environmentId st' ws = Some E2 \<and> ws \<in> clientsOf st' E2 \<and> ws \<in> clientsOf st' E1"
    using assms
    by (auto simp: Let_def registerClient_clientsOf clientsOf_updates environmentId_updates
        split: sum.splits)
  have env_start: "environmentId (snd (startSession ext E2 names hash clientFiles s)) = environmentId s" for s
    using startSession_try_frame [of ext E2 names hash clientFiles "restart_existing ext E2 s"]
    by (auto simp: startSession_def broadcast_frame restart_existing_frame
        split: prod.splits sum.splits)
  have r: "let st' = snd (handleWebSocketMessage ext ws (Run (Some names) E2 hash clientFiles) st)
          in environmentId st' ws = Some E2 \<and> ws \<in> clientsOf st' E2 \<and> ws \<in> clientsOf st' E1"
    using assms
    by (simp add: split_beta Let_def registerClient_clientsOf clientsOf_updates keeps env_start
        environmentId_updates)
  have c: "let st' = snd (handleWebSocketMessage ext ws (CursorMove line ch fl E2) st)
          in environmentId st' ws = Some E2 \<and> clientsMap st' = clientsMap st"
    using assms by (simp add: sendToOthers_def emit_def)
  have a: "\<forall>req. ws \<in> clientsOf (snd (handleWebSocketMessage ext ws req st)) E1"
    using assms(1) handle_keeps_registrations by blast
  show ?thesis using g r c a by blast
qed

theorem rebinding_keeps_old_registration_witness:
  "environmentId (snd (handleWebSocketMessage (quiet (\<lambda>v. []) (\<lambda>files. [])) 1
      (GetFiles ''E2'') bound)) 1 = Some ''E2''
 \<and> 1 \<in> clientsOf (snd (handleWebSocketMessage (quiet (\<lambda>v. []) (\<lambda>files. [])) 1
      (GetFiles ''E2'') bound)) ''E2''
 \<and> 1 \<in> clientsOf (snd (handleWebSocketMessage (quiet (\<lambda>v. []) (\<lambda>files. [])) 1
      (GetFiles ''E2'') bound)) ''E1''"
  using rebinding_keeps_old_registration [of 1 bound "''E1''" "''E2''"
      "quiet (\<lambda>v. []) (\<lambda>files. [])" "[]" JNull JNull JNull JNull JNull]
  by (simp add: Let_def bound_def idle_def clientsOf_def)

text \<open>
  C8 as stated fails for \<^verbatim>\<open>cursorMove\<close>: the client is bound to \<open>E2\<close> and is not
  in the client set of \<open>E2\<close>.
\<close>

theorem cursorMove_rebinds_without_registering:
  "1 \<in> clientsOf bound ''E1'' \<and> environmentId bound 1 = Some ''E1''
 \<and> environmentId (snd (handleWebSocketMessage (quiet (\<lambda>v. []) (\<lambda>files. [])) 1
      (CursorMove JNull JNull JNull ''E2'') bound)) 1 = Some ''E2''
 \<and> 1 \<notin> clientsOf (snd (handleWebSocketMessage (quiet (\<lambda>v. []) (\<lambda>files. [])) 1
      (CursorMove JNull JNull JNull ''E2'') bound)) ''E2''"
  by (simp add: bound_def idle_def clientsOf_def sendToOthers_def emit_def)

subsection \<open>Deleting and duplicating a file\<close>

lemma alist_delete_absent: "map_of xs k = None \<Longrightarrow> AList.delete k xs = xs"
  by (induction xs) (auto split: if_splits)

text \<open>
  C10. What \<^verbatim>\<open>deleteFile\<close> returns depends on the store's answer only: true
  unless the store rejects the command, whether or not the file exists, so never the
  error that the file does not exist. Deleting a file that does not exist leaves the
  store as it is, where \<^verbatim>\<open>renameFile\<close> and \<^verbatim>\<open>duplicateFile\<close> throw that error.
\<close>

theorem deleteFile_missing_file:
  "fst (deleteFile ext env fname st) =
     (case redisError ext (fileKey env fname) of None \<Rightarrow> Inr True | Some m \<Rightarrow> Inl (Rejected m))
   \<and> fst (deleteFile ext env fname st) \<noteq> Inl (Error ''File does not exist'')
   \<and> (map_of (store st) (fileKey env fname) = None \<longrightarrow>
        store (snd (deleteFile ext env fname st)) = store st
      \<and> (redisError ext (fileKey env fname) = None \<longrightarrow>
           fst (renameFile ext env fname newName st) = Inl (Error ''File does not exist'')
         \<and> fst (duplicateFile ext env fname st) = Inl (Error ''File does not exist'')))"
  by (auto simp: deleteFile_def redis_del_def renameFile_def duplicateFile_def get_def
      redis_get_def nullish_def alist_delete_absent split: option.splits)

theorem deleteFile_missing_file_witness:
  "fst (deleteFile (quiet (\<lambda>v. []) (\<lambda>files. [])) ''e'' ''a.py'' idle) = Inr True
 \<and> store (snd (deleteFile (quiet (\<lambda>v. []) (\<lambda>files. [])) ''e'' ''a.py'' idle)) = []
 \<and> fst (renameFile (quiet (\<lambda>v. []) (\<lambda>files. [])) ''e'' ''a.py'' ''b.py'' idle)
      = Inl (Error ''File does not exist'')
 \<and> fst (duplicateFile (quiet (\<lambda>v. []) (\<lambda>files. [])) ''e'' ''a.py'' idle)
      = Inl (Error ''File does not exist'')"
  using deleteFile_missing_file [of "quiet (\<lambda>v. []) (\<lambda>files. [])" "''e''" "''a.py''" idle "''b.py''"]
  by (simp add: quiet_def idle_def)

text \<open>The name of a duplicate, and its content when the original is not JSON.\<close>

lemma lastIndexOf_absent: "c \<notin> set xs \<Longrightarrow> lastIndexOf c xs = - 1"
  by (induction xs) auto

lemma lastIndexOf_ge: "- 1 \<le> lastIndexOf c xs"
  by (induction xs) auto

lemma lastIndexOf_last: "c \<notin> set ys \<Longrightarrow> lastIndexOf c (xs @ c # ys) = int (length xs)"
  by (induction xs) (auto simp: lastIndexOf_absent)

lemma copy_name_extension:
  "CHR ''.'' \<notin> set ext \<Longrightarrow> base \<noteq> [] \<Longrightarrow>
     copy_name (base @ ''.'' @ ext) = base @ ''_copy'' @ ''.'' @ ext"
  using lastIndexOf_last [of "CHR ''.''" ext base]
  by (simp add: copy_name_def Let_def)

lemma copy_name_no_dot: "CHR ''.'' \<notin> set fname \<Longrightarrow> copy_name fname = fname @ ''_copy''"
  by (simp add: copy_name_def Let_def lastIndexOf_absent)

lemma copy_name_dotfile:
  "CHR ''.'' \<notin> set rest \<Longrightarrow> copy_name (''.'' @ rest) = ''.'' @ rest @ ''_copy''"
  using lastIndexOf_last [of "CHR ''.''" rest "[]"]
  by (simp add: copy_name_def Let_def)

lemma copy_name_examples:
  "copy_name ''a.py'' = ''a_copy.py''"
  "copy_name ''Makefile'' = ''Makefile_copy''"
  "copy_name ''.bashrc'' = ''.bashrc_copy''"
  "copy_name ''a.tar.gz'' = ''a.tar_copy.gz''"
  by (simp_all add: copy_name_def Let_def)

lemma duplicateFile_verbatim:
  assumes "map_of (store st) (fileKey env fname) = Some content"
    and "JSON_parse content = None"
    and "redisError ext (fileKey env fname) = None"
    and "redisError ext (fileKey env (copy_name fname)) = None"
  shows "duplicateFile ext env fname st =
           (Inr (copy_name fname),
            st\<lparr>store := AList.update (fileKey env (copy_name fname)) content (store st)\<rparr>)"
  using assms
  by (simp add: duplicateFile_def get_def redis_get_def set_value_def nullish_def)

text \<open>
  C9 fails on the code. A file whose content is the three characters \<^verbatim>\<open>"x"\<close> is
  copied under the right name, but with the content \<open>x\<close>; a file whose content is
  \<open>null\<close> is reported as not existing.
\<close>

theorem duplicateFile_alters_content:
  "duplicateFile (quiet render digest) ''e'' ''a.py''
       (idle\<lparr>store := [(''e_a.py'', [CHR 0x22, CHR ''x'', CHR 0x22])]\<rparr>)
     = (Inr ''a_copy.py'',
        idle\<lparr>store := [(''e_a.py'', [CHR 0x22, CHR ''x'', CHR 0x22]), (''e_a_copy.py'', ''x'')]\<rparr>)
 \<and> duplicateFile (quiet render digest) ''e'' ''a.py'' (idle\<lparr>store := [(''e_a.py'', ''null'')]\<rparr>)
     = (Inl (Error ''File does not exist''), idle\<lparr>store := [(''e_a.py'', ''null'')]\<rparr>)"
  by (simp add: duplicateFile_def copy_name_def nullish_def manager_eval json_eval quiet_def
      idle_def Let_def)

subsection \<open>Fidelity of the update stream\<close>

text \<open>A validated edit whose read is handed back as it is, and what an open client is sent.\<close>

lemma JSON_parse_empty: "JSON_parse [] = None"
  by (simp add: JSON_parse_def)

lemma get_reads_verbatim:
  "reads_verbatim ext st key \<Longrightarrow>
     \<exists>v. get ext key st = Inr v \<and> (if truthy v then v else JStr []) = JStr (content_of st key)"
  by (auto simp: reads_verbatim_def get_def redis_get_def content_of_def
      split: option.splits)

lemma sends_frame:
  "store (foldl (\<lambda>s u. sendToOthers ws e (f u) s) st us) = store st"
  "wssClients (foldl (\<lambda>s u. sendToOthers ws e (f u) s) st us) = wssClients st"
  "isOpen (foldl (\<lambda>s u. sendToOthers ws e (f u) s) st us) = isOpen st"
  "environmentId (foldl (\<lambda>s u. sendToOthers ws e (f u) s) st us) = environmentId st"
  by (induction us arbitrary: st) (simp_all add: sendToOthers_def emit_def)

lemma others_cong:
  "wssClients st' = wssClients st \<Longrightarrow> isOpen st' = isOpen st \<Longrightarrow>
   environmentId st' = environmentId st \<Longrightarrow> others st' ws e = others st ws e"
  by (simp add: others_def)

lemma sends_trace:
  "trace (foldl (\<lambda>s u. sendToOthers ws e (f u) s) st us) =
     trace st @ concat (map (\<lambda>u. map (\<lambda>c. Send c (f u)) (others st ws e)) us)"
proof (induction us arbitrary: st)
  case Nil
  then show ?case by simp
next
  case (Cons u us)
  have "others (sendToOthers ws e (f u) st) ws e = others st ws e"
    by (intro others_cong) (simp_all add: sendToOthers_def emit_def)
  then show ?case
    using Cons.IH [of "sendToOthers ws e (f u) st"]
    by (simp add: sendToOthers_def emit_def)
qed

lemma received_append: "received c (a @ b) = received c a @ received c b"
  by (induction c a rule: received.induct) simp_all

lemma line_updates_append: "line_updates (a @ b) = line_updates a @ line_updates b"
  by (induction a rule: line_updates.induct) simp_all

lemma received_sends:
  "received c (map (\<lambda>c'. Send c' m) cs) = replicate (count_list cs c) m"
  by (induction cs) simp_all

lemma received_updates:
  "count_list cs c = 1 \<Longrightarrow>
     line_updates (received c (concat (map (\<lambda>u. map (\<lambda>c'. Send c' (LineUpdated u)) cs) us))) = us"
  by (induction us) (simp_all add: received_append received_sends line_updates_append)

lemma observer_once:
  "distinct (wssClients st) \<Longrightarrow> c \<in> set (wssClients st) \<Longrightarrow> c \<noteq> ws \<Longrightarrow> isOpen st c \<Longrightarrow>
   environmentId st c = Some env \<Longrightarrow> count_list (others st ws (Some env)) c = 1"
proof -
  assume a: "distinct (wssClients st)" "c \<in> set (wssClients st)" "c \<noteq> ws" "isOpen st c"
    "environmentId st c = Some env"
  have d: "distinct (others st ws (Some env))" using a(1) by (simp add: others_def)
  have m: "c \<in> set (others st ws (Some env))" using a by (simp add: others_def)
  have "distinct xs \<Longrightarrow> c \<in> set xs \<Longrightarrow> count_list xs c = 1" for xs
    by (induction xs) auto
  then show ?thesis using d m by blast
qed

lemma content_of_update:
  "content_of (st\<lparr>store := AList.update key v (store st)\<rparr>) key = v"
  by (simp add: content_of_def update_conv')

lemma content_of_cong: "store st' = store st \<Longrightarrow> content_of st' key = content_of st key"
  by (simp add: content_of_def)

lemma diffLine_verbatim:
  assumes "reads_verbatim ext st (fileKey env fname)"
  shows "diffLine ext ws env fname opk lnum lc cnt st =
     (Inr (),
      foldl (\<lambda>s u. sendToOthers ws (Some env) (LineUpdated u) s)
        (st\<lparr>store := AList.update (fileKey env fname)
                  (join_nl (fst (apply_edit fname opk lnum lc cnt
                                  (split_nl (content_of st (fileKey env fname))))))
                  (store st)\<rparr>)
        (snd (apply_edit fname opk lnum lc cnt (split_nl (content_of st (fileKey env fname))))))"
proof -
  obtain v where v: "get ext (fileKey env fname) st = Inr v"
      "(if truthy v then v else JStr []) = JStr (content_of st (fileKey env fname))"
    using get_reads_verbatim [OF assms] by blast
  have r: "redisError ext (fileKey env fname) = None"
    using assms by (simp add: reads_verbatim_def)
  show ?thesis
    unfolding diffLine_def using v r
    by (simp add: set_value_def split_beta)
qed

text \<open>
  Where every edit finds the content of the file handed back as it is, the update stream
  is faithful: the updates an open client of the environment is sent, replayed on the
  content before the edits, give the content the store holds after them.
\<close>

lemma replay_fidelity_when_reads_are_verbatim:
  assumes "list_all (valid_edit env fname) reqs"
    and "verbatim_run ext ws (fileKey env fname) reqs st"
    and "obs \<noteq> ws" and "isOpen st obs" and "environmentId st obs = Some env"
    and "distinct (wssClients st)" and "obs \<in> set (wssClients st)"
  shows "\<exists>ups. line_updates (received obs (trace (onMessages ext ws reqs st))) =
                 line_updates (received obs (trace st)) @ ups
             \<and> replay ups (content_of st (fileKey env fname)) =
                 content_of (onMessages ext ws reqs st) (fileKey env fname)"
  using assms
proof (induction reqs arbitrary: st)
  case Nil
  then show ?case by (simp add: replay_def)
next
  case (Cons r reqs)
  let ?key = "fileKey env fname"
  from Cons.prems(1) obtain k n lc cnt where
    r: "r = DiffLine env fname (Some k) (Some n) lc cnt" and ne: "env \<noteq> []" "fname \<noteq> []"
    and n: "0 \<le> n" and cl: "clean (to_array lc)"
    by (cases "(env, fname, r)" rule: valid_edit.cases) (auto simp: clean_def list_all_iff)
  have rv: "reads_verbatim ext st ?key" using Cons.prems(2) by simp
  let ?e = "apply_edit fname k n lc cnt (split_nl (content_of st ?key))"
  let ?st0 = "st\<lparr>store := AList.update ?key (join_nl (fst ?e)) (store st)\<rparr>"
  let ?st1 = "foldl (\<lambda>s u. sendToOthers ws (Some env) (LineUpdated u) s) ?st0 (snd ?e)"
  have om: "onMessage ext ws r st = ?st1"
    using diffLine_verbatim [OF rv, of ws k n lc cnt] r ne by (simp add: onMessage_def)
  have frame: "wssClients ?st1 = wssClients st" "isOpen ?st1 = isOpen st"
    "environmentId ?st1 = environmentId st"
    by (simp_all add: sends_frame)
  have content1: "content_of ?st1 ?key = join_nl (fst ?e)"
    using content_of_cong [of ?st1 ?st0 ?key] by (simp add: sends_frame content_of_update)
  have oth: "others ?st0 ws (Some env) = others st ws (Some env)"
    by (intro others_cong) simp_all
  have once: "count_list (others st ws (Some env)) obs = 1"
    using Cons.prems(3-7) by (intro observer_once) simp_all
  have tr1: "line_updates (received obs (trace ?st1)) =
               line_updates (received obs (trace st)) @ snd ?e"
    using received_updates [OF once, of "snd ?e"]
    by (simp add: sends_trace oth received_append line_updates_append)
  have step1: "replay (snd ?e) (content_of st ?key) = content_of ?st1 ?key"
    using apply_edit_replay [OF n cl, of fname k cnt "content_of st ?key"] content1 by simp
  have "\<exists>ups. line_updates (received obs (trace (onMessages ext ws reqs ?st1))) =
                 line_updates (received obs (trace ?st1)) @ ups
             \<and> replay ups (content_of ?st1 ?key) = content_of (onMessages ext ws reqs ?st1) ?key"
    using Cons.prems om frame by (intro Cons.IH) simp_all
  then obtain ups where ups:
    "line_updates (received obs (trace (onMessages ext ws reqs ?st1))) =
       line_updates (received obs (trace ?st1)) @ ups"
    "replay ups (content_of ?st1 ?key) = content_of (onMessages ext ws reqs ?st1) ?key"
    by blast
  have "replay (snd ?e @ ups) (content_of st ?key) = content_of (onMessages ext ws reqs ?st1) ?key"
    using step1 ups(2) by (simp add: replay_def)
  then show ?case
    using ups(1) tr1 om by (intro exI [of _ "snd ?e @ ups"]) simp
qed

text \<open>The hypotheses hold on a run that inserts two lines and deletes past the end.\<close>

lemma replay_fidelity_instance:
  "\<exists>ups. line_updates (received 1 (trace (onMessages (quiet render digest) 0
             [DiffLine ''e'' ''a.py'' (Some Insert) (Some 0) (ManyLines [''a'', ''b'']) None,
              DiffLine ''e'' ''a.py'' (Some Delete) (Some 1) (OneLine []) (Some 5)] editing))) = ups
       \<and> replay ups [] =
           content_of (onMessages (quiet render digest) 0
             [DiffLine ''e'' ''a.py'' (Some Insert) (Some 0) (ManyLines [''a'', ''b'']) None,
              DiffLine ''e'' ''a.py'' (Some Delete) (Some 1) (OneLine []) (Some 5)] editing)
             (fileKey ''e'' ''a.py'')"
proof -
  let ?reqs = "[DiffLine ''e'' ''a.py'' (Some Insert) (Some 0) (ManyLines [''a'', ''b'']) None,
                DiffLine ''e'' ''a.py'' (Some Delete) (Some 1) (OneLine []) (Some 5)]"
  have v: "list_all (valid_edit ''e'' ''a.py'') ?reqs" by simp
  have r: "verbatim_run (quiet render digest) 0 (fileKey ''e'' ''a.py'') ?reqs editing"
    by (simp add: reads_verbatim_def content_of_def onMessage_def diffLine_def sendToOthers_def
        others_def js_splice_def get_def redis_get_def set_value_def fileKey_def emit_def
        quiet_def idle_def editing_def json_eval Let_def)
  show ?thesis
    using replay_fidelity_when_reads_are_verbatim [OF v r, of 1]
    by (simp add: editing_def idle_def content_of_def fileKey_def)
qed

text \<open>
  C2 fails on the code. Client 0 replaces line 0 of a new file by \<open>0\<close> and then inserts
  \<open>x\<close> at line 1; the second edit reads the content \<open>0\<close> back as the number zero and
  takes the file for empty. The store ends with an empty line and \<open>x\<close>, the updates
  client 1 was sent replay to \<open>0\<close> and \<open>x\<close>.
\<close>

theorem lineUpdated_replay_diverges:
  "map_of (store (onMessages (quiet render digest) 0
       [DiffLine ''e'' ''a.py'' (Some Replace) (Some 0) (OneLine ''0'') None,
        DiffLine ''e'' ''a.py'' (Some Insert) (Some 1) (OneLine ''x'') None] editing)) ''e_a.py''
     = Some (NL # ''x'')
 \<and> replay (line_updates (received 1 (trace (onMessages (quiet render digest) 0
       [DiffLine ''e'' ''a.py'' (Some Replace) (Some 0) (OneLine ''0'') None,
        DiffLine ''e'' ''a.py'' (Some Insert) (Some 1) (OneLine ''x'') None] editing)))) []
     = ''0'' @ NL # ''x''"
  by (simp add: onMessage_def diffLine_def sendToOthers_def others_def replay_def
      replay_step_def js_splice_def set_index_def manager_eval json_eval quiet_def idle_def editing_def Let_def)

end
